theory Spec2Isabelle
  imports Complex_Main "HOL-Library.Multiset"
begin

section \<open>Python exceptions and containers\<close>

text \<open>
  An exception that leaves a function of \<open>test_executor.py\<close> is a value: every function
  that can raise returns \<open>py_exception + 'a\<close>, with \<open>Inl\<close> for the exception. An exception
  is kept as the name of its class and the text that \<open>str(e)\<close> gives; the code never
  looks at more (the handlers are \<open>except subprocess.TimeoutExpired\<close>, modelled apart, and
  \<open>except Exception as e\<close>, which reads \<open>str(e)\<close>). Exceptions that are no \<open>Exception\<close>
  (a keyboard interrupt, \<open>SystemExit\<close>) are outside the model.
\<close>

datatype py_exception = PyException string string

fun str_of_exception :: "py_exception \<Rightarrow> string" where
  "str_of_exception (PyException cls msg) = msg"

definition bind_err :: "'e + 'a \<Rightarrow> ('a \<Rightarrow> 'e + 'b) \<Rightarrow> 'e + 'b" where
  "bind_err m f = (case m of Inl e \<Rightarrow> Inl e | Inr x \<Rightarrow> f x)"

text \<open>\<open>d[key]\<close> on a dictionary entry that may be absent; \<open>str(KeyError('k'))\<close> is \<open>'k'\<close>
  with the quotes.\<close>

definition getitem :: "string \<Rightarrow> 'a option \<Rightarrow> py_exception + 'a" where
  "getitem key entry =
     (case entry of
        None \<Rightarrow> Inl (PyException ''KeyError'' (CHR 0x27 # key @ [CHR 0x27]))
      | Some v \<Rightarrow> Inr v)"

text \<open>
  A call of \<open>print\<close> writes to \<open>sys.stdout\<close> and can raise: \<open>UnicodeEncodeError\<close> when
  the encoding of the stream cannot represent the text (the fixed texts contain emoji and
  Chinese, the others a module name or captured output), \<open>OSError\<close> on a closed pipe.
  The environment says, for every call, whether it raises and what; the text written is
  not kept.
\<close>

definition print_line :: "py_exception option \<Rightarrow> py_exception + unit" where
  "print_line outcome = (case outcome of None \<Rightarrow> Inr () | Some e \<Rightarrow> Inl e)"

text \<open>\<open>a / b\<close> on two Python ints; the float result is idealised as a real number.\<close>

definition int_truediv :: "nat \<Rightarrow> nat \<Rightarrow> py_exception + real" where
  "int_truediv a b =
     (if b = 0 then Inl (PyException ''ZeroDivisionError'' ''division by zero'')
      else Inr (real a / real b))"

text \<open>\<open>str.replace(old, new)\<close> for a non-empty \<open>old\<close>: non-overlapping occurrences, left to
  right. The counter skips the rest of an occurrence that has just been replaced.\<close>

fun replace_from :: "string \<Rightarrow> string \<Rightarrow> nat \<Rightarrow> string \<Rightarrow> string" where
  "replace_from old new k [] = []"
| "replace_from old new (Suc k) (c # cs) = replace_from old new k cs"
| "replace_from old new 0 (c # cs) =
     (if take (length old) (c # cs) = old
      then new @ replace_from old new (length old - 1) cs
      else c # replace_from old new 0 cs)"

definition str_replace :: "string \<Rightarrow> string \<Rightarrow> string \<Rightarrow> string" where
  "str_replace old new s = replace_from old new 0 s"

text \<open>A dictionary that keeps insertion order, as Python's does: \<open>k in d\<close>, \<open>d[k] = v\<close> and an
  in-place change of \<open>d[k]\<close>.\<close>

definition dict_contains :: "'k \<Rightarrow> ('k \<times> 'v) list \<Rightarrow> bool" where
  "dict_contains k d = (map_of d k \<noteq> None)"

fun dict_set :: "'k \<Rightarrow> 'v \<Rightarrow> ('k \<times> 'v) list \<Rightarrow> ('k \<times> 'v) list" where
  "dict_set k v [] = [(k, v)]"
| "dict_set k v (p # ps) = (if fst p = k then (k, v) # ps else p # dict_set k v ps)"

fun dict_apply :: "'k \<Rightarrow> ('v \<Rightarrow> 'v) \<Rightarrow> ('k \<times> 'v) list \<Rightarrow> ('k \<times> 'v) list" where
  "dict_apply k f [] = []"
| "dict_apply k f (p # ps) =
     (if fst p = k then (k, f (snd p)) # ps else p # dict_apply k f ps)"


section \<open>test_executor.py: the test runner\<close>

text \<open>
  A path is its anchor (the root \<open>/\<close>, or nothing for a relative path) and the names
  after it. \<open>Path.name\<close> is the last name, and the empty string when there is none.
\<close>

type_synonym path = "string \<times> string list"

definition path_name :: "path \<Rightarrow> string" where
  "path_name p = (if snd p = [] then [] else last (snd p))"

text \<open>
  A test descriptor is the dictionary built by \<open>_discover_module_tests\<close>. Its values have
  the types discovery gives them (strings, and a path for \<open>test_file\<close>); a key may be
  missing, and reading it then raises \<open>KeyError\<close>.
\<close>

record test_info =
  ti_module_name :: "string option"
  ti_module_type :: "string option"
  ti_test_type :: "string option"
  ti_test_file :: "path option"
  ti_test_path :: "string option"

definition well_formed :: "test_info \<Rightarrow> bool" where
  "well_formed t =
     (ti_module_name t \<noteq> None \<and> ti_module_type t \<noteq> None \<and> ti_test_type t \<noteq> None \<and>
      ti_test_file t \<noteq> None \<and> ti_test_path t \<noteq> None)"

text \<open>The result dictionary of one test. Times are microseconds on the clock of
  \<open>datetime.now()\<close>; \<open>duration\<close> is in seconds.\<close>

record execution_record =
  mod_name :: string
  test_type :: string
  test_file :: string
  test_path :: string
  status :: string
  duration :: real
  start_time :: int
  end_time :: int
  stdout :: string
  stderr :: string
  return_code :: int

text \<open>
  What \<open>subprocess.run\<close> does with the command line: it completes with an exit code and
  the captured output, its timeout of 300 seconds expires, or it raises another exception
  (with the text of \<open>str(e)\<close>).
\<close>

datatype proc_outcome =
    Completed int string string
  | TimeoutExpired
  | Raised string

text \<open>
  What the world answers to one call of \<open>execute_single_test\<close>: the two readings of the
  clock, the interpreter's path, the subprocess, and the outcome of each \<open>print\<close> of the
  function: the announcement before the \<open>try\<close> (line 91), the lines for a passed test
  (130), a failed test (132) and its error output (134) inside the \<open>try\<close>, and the lines
  of the timeout handler (152) and of the general handler (169).
\<close>

record run_env =
  t_start :: int
  t_end :: int
  sys_executable :: string
  subprocess_run :: "string list \<Rightarrow> proc_outcome"
  print_start :: "py_exception option"
  print_pass :: "py_exception option"
  print_fail :: "py_exception option"
  print_stderr :: "py_exception option"
  print_timeout :: "py_exception option"
  print_error :: "py_exception option"

datatype 'a try_result = Returned 'a | RaisedTimeout | RaisedException string

definition total_seconds :: "int \<Rightarrow> real" where
  "total_seconds micros = real_of_int micros / 1000000"

text \<open>The command line: the interpreter, \<open>-m unittest\<close>, and the test's path turned
  into a dotted module name.\<close>

definition build_cmd :: "run_env \<Rightarrow> string \<Rightarrow> string list" where
  "build_cmd env test_path' =
     [sys_executable env, ''-m'', ''unittest'',
      str_replace ''.py'' '''' (str_replace ''/'' ''.'' test_path')]"

text \<open>\<open>try: \<dots> except Exception as e\<close> around a \<open>print\<close> inside the \<open>try\<close> block: the
  exception of the print is caught like any other.\<close>

definition print_in_try :: "py_exception option \<Rightarrow> 'a try_result \<Rightarrow> 'a try_result" where
  "print_in_try outcome continue =
     (case outcome of None \<Rightarrow> continue | Some e \<Rightarrow> RaisedException (str_of_exception e))"

text \<open>The body of the \<open>try\<close> statement (lines 93 to 136).\<close>

definition try_block ::
  "run_env \<Rightarrow> test_info \<Rightarrow> string \<Rightarrow> string \<Rightarrow> path \<Rightarrow> execution_record try_result"
where
  "try_block env info module_name' test_type' test_file' =
     (case getitem ''test_path'' (ti_test_path info) of
        Inl e \<Rightarrow> RaisedException (str_of_exception e)
      | Inr test_path' \<Rightarrow>
          (let cmd = build_cmd env test_path'
           in case subprocess_run env cmd of
                Completed returncode out err \<Rightarrow>
                  (let success = (returncode = 0);
                       test_result =
                         \<lparr>mod_name = module_name', test_type = test_type',
                          test_file = path_name test_file', test_path = test_path',
                          status = (if success then ''PASS'' else ''FAIL''),
                          duration = total_seconds (t_end env - t_start env),
                          start_time = t_start env, end_time = t_end env,
                          stdout = out, stderr = err, return_code = returncode\<rparr>
                   in if success
                      then print_in_try (print_pass env) (Returned test_result)
                      else print_in_try (print_fail env)
                             (if err \<noteq> []
                              then print_in_try (print_stderr env) (Returned test_result)
                              else Returned test_result))
              | TimeoutExpired \<Rightarrow> RaisedTimeout
              | Raised msg \<Rightarrow> RaisedException msg))"

definition execute_single_test ::
  "run_env \<Rightarrow> test_info \<Rightarrow> py_exception + execution_record"
where
  "execute_single_test env info =
     bind_err (getitem ''module_name'' (ti_module_name info)) (\<lambda>module_name'.
     bind_err (getitem ''test_type'' (ti_test_type info)) (\<lambda>test_type'.
     bind_err (getitem ''test_file'' (ti_test_file info)) (\<lambda>test_file'.
     bind_err (print_line (print_start env)) (\<lambda>u.
       case try_block env info module_name' test_type' test_file' of
         Returned test_result \<Rightarrow> Inr test_result
       | RaisedTimeout \<Rightarrow>
           bind_err (getitem ''test_path'' (ti_test_path info)) (\<lambda>test_path'.
           bind_err (print_line (print_timeout env)) (\<lambda>u.
             Inr \<lparr>mod_name = module_name', test_type = test_type',
               test_file = path_name test_file', test_path = test_path',
               status = ''TIMEOUT'', duration = 300,
               start_time = t_start env, end_time = t_end env,
               stdout = '''', stderr = ''Test execution timeout (300s)'',
               return_code = - 1\<rparr>))
       | RaisedException msg \<Rightarrow>
           bind_err (getitem ''test_path'' (ti_test_path info)) (\<lambda>test_path'.
           bind_err (print_line (print_error env)) (\<lambda>u.
             Inr \<lparr>mod_name = module_name', test_type = test_type',
               test_file = path_name test_file', test_path = test_path',
               status = ''ERROR'', duration = 0,
               start_time = t_start env, end_time = t_end env,
               stdout = '''', stderr = msg, return_code = - 2\<rparr>))))))"


section \<open>test_executor.py: the schedulers\<close>

text \<open>
  The world of a scheduler: the outcome of its two opening prints (the banner and the
  rule of 80 signs) and, for the parallel one, of the handler of each task: the two
  readings of the clock for the record it builds and the outcome of its print (line 207).
\<close>

record sched_env =
  print_banner :: "py_exception option"
  print_rule :: "py_exception option"
  handler_clock :: "nat \<Rightarrow> int \<times> int"
  print_handler :: "nat \<Rightarrow> py_exception option"

text \<open>Sequential mode: the \<open>k\<close>-th call of the runner meets the world \<open>env k\<close>; an exception
  of the runner leaves the loop and the function.\<close>

fun sequential_loop ::
  "(nat \<Rightarrow> run_env) \<Rightarrow> nat \<Rightarrow> test_info list \<Rightarrow> execution_record list
     \<Rightarrow> py_exception + execution_record list"
where
  "sequential_loop env k [] results = Inr results"
| "sequential_loop env k (info # rest) results =
     bind_err (execute_single_test (env k) info)
       (\<lambda>result. sequential_loop env (Suc k) rest (results @ [result]))"

definition execute_tests_sequential ::
  "sched_env \<Rightarrow> (nat \<Rightarrow> run_env) \<Rightarrow> test_info list \<Rightarrow> py_exception + execution_record list"
where
  "execute_tests_sequential sched env test_modules =
     bind_err (print_line (print_banner sched)) (\<lambda>u.
     bind_err (print_line (print_rule sched)) (\<lambda>u.
       sequential_loop env 0 test_modules []))"

text \<open>
  Parallel mode. Task \<open>i\<close> is the future submitted for \<open>test_modules ! i\<close>; its outcome is
  what \<open>future.result()\<close> gives: a record, or the exception raised in the worker.
  \<open>as_completed\<close> yields every future once, in the order \<open>order\<close> of completion, a
  permutation of the task numbers. The handler of a failed future builds the ERROR
  record, appends it and then prints; an exception of that print leaves the function.
\<close>

definition error_result ::
  "int \<times> int \<Rightarrow> test_info \<Rightarrow> py_exception \<Rightarrow> py_exception + execution_record"
where
  "error_result now info e =
     bind_err (getitem ''module_name'' (ti_module_name info)) (\<lambda>module_name'.
     bind_err (getitem ''test_type'' (ti_test_type info)) (\<lambda>test_type'.
     bind_err (getitem ''test_file'' (ti_test_file info)) (\<lambda>test_file'.
     bind_err (getitem ''test_path'' (ti_test_path info)) (\<lambda>test_path'.
       Inr \<lparr>mod_name = module_name', test_type = test_type',
         test_file = path_name test_file', test_path = test_path',
         status = ''ERROR'', duration = 0,
         start_time = fst now, end_time = snd now,
         stdout = '''', stderr = ''Execution error: '' @ str_of_exception e,
         return_code = - 3\<rparr>))))"

definition collect_future ::
  "sched_env \<Rightarrow> nat \<Rightarrow> test_info \<Rightarrow> py_exception + execution_record
     \<Rightarrow> py_exception + execution_record"
where
  "collect_future sched i info outcome =
     (case outcome of
        Inr result \<Rightarrow> Inr result
      | Inl e \<Rightarrow>
          bind_err (error_result (handler_clock sched i) info e) (\<lambda>error_result'.
          bind_err (print_line (print_handler sched i)) (\<lambda>u. Inr error_result')))"

fun collect_loop ::
  "sched_env \<Rightarrow> (nat \<Rightarrow> py_exception + execution_record) \<Rightarrow> test_info list
     \<Rightarrow> nat list \<Rightarrow> execution_record list \<Rightarrow> py_exception + execution_record list"
where
  "collect_loop sched futures test_modules [] results = Inr results"
| "collect_loop sched futures test_modules (i # rest) results =
     bind_err (collect_future sched i (test_modules ! i) (futures i))
       (\<lambda>result. collect_loop sched futures test_modules rest (results @ [result]))"

text \<open>The function from its first line to its last, for given outcomes of the futures:
  \<open>ThreadPoolExecutor\<close> refuses a worker count below 1.\<close>

definition collect_completed ::
  "sched_env \<Rightarrow> (nat \<Rightarrow> py_exception + execution_record) \<Rightarrow> test_info list
     \<Rightarrow> int \<Rightarrow> nat list \<Rightarrow> py_exception + execution_record list"
where
  "collect_completed sched futures test_modules max_workers order =
     bind_err (print_line (print_banner sched)) (\<lambda>u.
     bind_err (print_line (print_rule sched)) (\<lambda>u.
       if max_workers \<le> 0
       then Inl (PyException ''ValueError'' ''max_workers must be greater than 0'')
       else collect_loop sched futures test_modules order []))"

definition execute_tests_parallel ::
  "sched_env \<Rightarrow> (nat \<Rightarrow> run_env) \<Rightarrow> test_info list \<Rightarrow> int \<Rightarrow> nat list
     \<Rightarrow> py_exception + execution_record list"
where
  "execute_tests_parallel sched env test_modules max_workers order =
     collect_completed sched (\<lambda>i. execute_single_test (env i) (test_modules ! i))
       test_modules max_workers order"


section \<open>test_executor.py: the report\<close>

record counts =
  total :: nat
  passed :: nat
  failed :: nat
  timeout :: nat
  error :: nat

definition zero_counts :: counts where
  "zero_counts = \<lparr>total = 0, passed = 0, failed = 0, timeout = 0, error = 0\<rparr>"

text \<open>One pass of the body of a grouping loop on the entry of its group: \<open>total\<close> goes up,
  then the \<open>if\<close>/\<open>elif\<close> chain on the status, which has no \<open>else\<close>.\<close>

definition count_status :: "string \<Rightarrow> counts \<Rightarrow> counts" where
  "count_status st c =
     (let c1 = c\<lparr>total := total c + 1\<rparr> in
      if st = ''PASS'' then c1\<lparr>passed := passed c1 + 1\<rparr>
      else if st = ''FAIL'' then c1\<lparr>failed := failed c1 + 1\<rparr>
      else if st = ''TIMEOUT'' then c1\<lparr>timeout := timeout c1 + 1\<rparr>
      else if st = ''ERROR'' then c1\<lparr>error := error c1 + 1\<rparr>
      else c1)"

definition add_result ::
  "string \<Rightarrow> string \<Rightarrow> (string \<times> counts) list \<Rightarrow> (string \<times> counts) list"
where
  "add_result key st stats =
     (let stats1 = (if \<not> dict_contains key stats then dict_set key zero_counts stats
                    else stats)
      in dict_apply key (count_status st) stats1)"

definition group_stats ::
  "(execution_record \<Rightarrow> string) \<Rightarrow> execution_record list \<Rightarrow> (string \<times> counts) list"
where
  "group_stats key test_results =
     foldl (\<lambda>stats r. add_result (key r) (status r) stats) [] test_results"

record summary =
  summary_start_time :: int
  summary_end_time :: int
  total_duration :: real
  total_tests :: nat
  passed_tests :: nat
  failed_tests :: nat
  timeout_tests :: nat
  error_tests :: nat
  success_rate :: real

record failed_test =
  ft_module :: string
  ft_test_type :: string
  ft_test_file :: string
  ft_status :: string
  ft_error :: string

record report =
  test_execution_id :: string
  execution_summary :: summary
  module_statistics :: "(string \<times> counts) list"
  type_statistics :: "(string \<times> counts) list"
  detailed_results :: "execution_record list"
  failed_tests_summary :: "failed_test list"

text \<open>The clock of the report: the start time stored by the constructor, the end time read
  by \<open>generate_comprehensive_report\<close>, and the \<open>strftime\<close> text of the identifier.\<close>

record report_env =
  execution_start_time :: int
  execution_end_time :: int
  id_stamp :: string

definition count_with :: "string \<Rightarrow> execution_record list \<Rightarrow> nat" where
  "count_with st test_results = length (filter (\<lambda>r. status r = st) test_results)"

definition failed_entry :: "execution_record \<Rightarrow> failed_test" where
  "failed_entry r =
     \<lparr>ft_module = mod_name r, ft_test_type = test_type r, ft_test_file = test_file r,
      ft_status = status r,
      ft_error = (if stderr r \<noteq> [] then take 500 (stderr r) else ''No error message'')\<rparr>"

definition generate_comprehensive_report ::
  "report_env \<Rightarrow> execution_record list \<Rightarrow> py_exception + report"
where
  "generate_comprehensive_report clk test_results =
     (let total_tests' = length test_results;
          passed_tests' = count_with ''PASS'' test_results;
          failed_tests' = count_with ''FAIL'' test_results;
          timeout_tests' = count_with ''TIMEOUT'' test_results;
          error_tests' = count_with ''ERROR'' test_results;
          module_stats = group_stats mod_name test_results;
          type_stats = group_stats test_type test_results
      in bind_err
           (if total_tests' > 0
            then bind_err (int_truediv passed_tests' total_tests') (\<lambda>q. Inr (q * 100))
            else Inr 0)
           (\<lambda>rate. Inr
              \<lparr>test_execution_id = ''MCP_TestExecution_'' @ id_stamp clk,
               execution_summary =
                 \<lparr>summary_start_time = execution_start_time clk,
                  summary_end_time = execution_end_time clk,
                  total_duration =
                    total_seconds (execution_end_time clk - execution_start_time clk),
                  total_tests = total_tests', passed_tests = passed_tests',
                  failed_tests = failed_tests', timeout_tests = timeout_tests',
                  error_tests = error_tests', success_rate = rate\<rparr>,
               module_statistics = module_stats,
               type_statistics = type_stats,
               detailed_results = test_results,
               failed_tests_summary =
                 map failed_entry
                   (filter (\<lambda>r. status r \<in> set [''FAIL'', ''TIMEOUT'', ''ERROR''])
                      test_results)\<rparr>))"


section \<open>test_executor.py: the whole run\<close>








section \<open>predictive_performance.py: statistics\<close>

text \<open>
  The exceptions of this file carry no text: nothing reads it. Python floats are
  idealised as real numbers: rounding, infinities and NaN are outside the model. A
  \<open>datetime\<close> is a whole number of microseconds and a \<open>timedelta\<close> a difference of two;
  time stamps are naive, as \<open>datetime.now()\<close> gives them, and the range of \<open>datetime\<close>
  (years 1 to 9999, beyond which its arithmetic raises \<open>OverflowError\<close>) is outside the
  model. The calls of \<open>logger.info\<close> are left out: the \<open>logging\<close> module handles the errors
  of its handlers itself and the calls return nothing.

  The functions of the \<open>statistics\<close> module raise \<open>StatisticsError\<close> on too few data
  points; \<open>stdev\<close> is the sample standard deviation (divisor \<open>n - 1\<close>).
\<close>

datatype stat_error = ZeroDivisionError | StatisticsError | ValueError | IndexError

text \<open>\<open>a / b\<close> on floats.\<close>

definition float_truediv :: "real \<Rightarrow> real \<Rightarrow> stat_error + real" where
  "float_truediv a b = (if b = 0 then Inl ZeroDivisionError else Inr (a / b))"

definition mean :: "real list \<Rightarrow> stat_error + real" where
  "mean xs =
     (if xs = [] then Inl StatisticsError
      else Inr (sum_list xs / real (length xs)))"

definition median :: "real list \<Rightarrow> stat_error + real" where
  "median xs =
     (let data = sort xs; n = length data in
      if n = 0 then Inl StatisticsError
      else if n mod 2 = 1 then Inr (data ! (n div 2))
      else (let i = n div 2 in Inr ((data ! (i - 1) + data ! i) / 2)))"

definition stdev :: "real list \<Rightarrow> stat_error + real" where
  "stdev xs =
     (let n = length xs in
      if n < 2 then Inl StatisticsError
      else (let m = sum_list xs / real n;
                ss = sum_list (map (\<lambda>x. (x - m)\<^sup>2) xs)
            in Inr (sqrt (ss / real (n - 1)))))"

text \<open>\<open>min\<close> and \<open>max\<close> of a list raise \<open>ValueError\<close> on the empty list.\<close>

definition py_min :: "real list \<Rightarrow> stat_error + real" where
  "py_min xs =
     (case xs of
        [] \<Rightarrow> Inl ValueError
      | x # rest \<Rightarrow> Inr (fold min rest x))"

definition py_max :: "real list \<Rightarrow> stat_error + real" where
  "py_max xs =
     (case xs of
        [] \<Rightarrow> Inl ValueError
      | x # rest \<Rightarrow> Inr (fold max rest x))"



section \<open>predictive_performance.py: trend analysis\<close>

datatype TrendDirection = IMPROVING | STABLE | DEGRADING | VOLATILE

text \<open>A \<open>PerformanceMetric\<close>; the timestamp is in microseconds. The \<open>context\<close> dictionary is
  read by none of the functions below and is left out.\<close>

record PerformanceMetric =
  m_name :: string
  m_value :: real
  m_unit :: string
  m_timestamp :: int
  m_threshold_warning :: "real option"
  m_threshold_critical :: "real option"

text \<open>\<open>timedelta(hours=h)\<close> in microseconds.\<close>

definition hours :: "int \<Rightarrow> int" where
  "hours h = h * 3600000000"

definition calculate_trend_direction :: "real list \<Rightarrow> stat_error + TrendDirection" where
  "calculate_trend_direction values =
     (if length values < 3 then Inr STABLE
      else
        (let x = [0..<length values];
             y = values;
             n = length values;
             sum_x = real (sum_list x);
             sum_y = sum_list y;
             sum_xy = sum_list (map (\<lambda>i. real (x ! i) * y ! i) [0..<n]);
             sum_x2 = real (sum_list (map (\<lambda>i. (x ! i)\<^sup>2) [0..<n]))
         in bind_err (float_truediv (real n * sum_xy - sum_x * sum_y)
                        (real n * sum_x2 - sum_x\<^sup>2)) (\<lambda>slope.
            bind_err (mean values) (\<lambda>mean_value.
            bind_err (if length values > 1 then stdev values else Inr 0) (\<lambda>std_dev.
            bind_err (if mean_value \<noteq> 0 then float_truediv std_dev mean_value else Inr 0)
              (\<lambda>cv.
                Inr (if cv > 0.3 then VOLATILE
                     else if slope > 0.1 then IMPROVING
                     else if slope < - 0.1 then DEGRADING
                     else STABLE)))))))"

record anomaly =
  a_index :: nat
  a_value :: real
  a_deviation :: real
  a_type :: string

definition detect_anomalies :: "real list \<Rightarrow> stat_error + anomaly list" where
  "detect_anomalies values =
     (if length values < 3 then Inr []
      else
        bind_err (mean values) (\<lambda>mean_value.
        bind_err (stdev values) (\<lambda>std_dev.
          (let threshold = 3 * std_dev in
           Inr (map (\<lambda>(i, v).
                      \<lparr>a_index = i, a_value = v, a_deviation = \<bar>v - mean_value\<bar>,
                       a_type = (if v > mean_value then ''high'' else ''low'')\<rparr>)
                  (filter (\<lambda>(i, v). \<bar>v - mean_value\<bar> > threshold)
                     (enumerate 0 values)))))))"

definition calculate_stability_score :: "real list \<Rightarrow> stat_error + real" where
  "calculate_stability_score values =
     (if length values < 2 then Inr 100
      else
        bind_err (mean values) (\<lambda>mean_value.
        bind_err (stdev values) (\<lambda>std_dev.
        bind_err (if mean_value \<noteq> 0 then float_truediv std_dev mean_value else Inr 0)
          (\<lambda>cv.
            (let stability_score = max 0 (100 - cv * 100) in
             Inr (min 100 stability_score))))))"

text \<open>The sentence of \<open>_generate_trend_analysis\<close>, kept as the direction it names and the
  numbers it prints (change rate and stability score).\<close>

datatype trend_text =
    ImprovingText real real
  | DegradingText real real
  | VolatileText real
  | StableText real

definition generate_trend_analysis :: "TrendDirection \<Rightarrow> real \<Rightarrow> real \<Rightarrow> trend_text" where
  "generate_trend_analysis trend change_rate stability =
     (if trend = IMPROVING then ImprovingText change_rate stability
      else if trend = DEGRADING then DegradingText change_rate stability
      else if trend = VOLATILE then VolatileText stability
      else StableText stability)"

record trend_analysis =
  metric_name :: string
  time_window_hours :: int
  data_points :: nat
  trend_direction :: TrendDirection
  mean_value :: real
  median_value :: real
  std_dev :: real
  min_value :: real
  max_value :: real
  range_value :: real
  change_rate_percent :: real
  stability_score :: real
  anomalies_count :: nat
  anomalies :: "anomaly list"
  latest_value :: real
  trend_analysis_text :: trend_text

text \<open>What \<open>analyze_performance_trends\<close> returns: the dictionary whose \<open>trend\<close> is
  \<open>insufficient_data\<close> (with the metric's name and a fixed message), or the full one.\<close>

datatype trend_result =
    InsufficientData string
  | TrendAnalysis trend_analysis

text \<open>The list comprehension that selects a metric's samples since the cutoff time.\<close>

definition metrics_since ::
  "PerformanceMetric list \<Rightarrow> string \<Rightarrow> int \<Rightarrow> PerformanceMetric list"
where
  "metrics_since metrics_history name cutoff_time =
     filter (\<lambda>m. m_name m = name \<and> m_timestamp m \<ge> cutoff_time) metrics_history"

definition analyze_performance_trends ::
  "PerformanceMetric list \<Rightarrow> int \<Rightarrow> string \<Rightarrow> int \<Rightarrow> stat_error + trend_result"
where
  "analyze_performance_trends metrics_history now name window_hours =
     (let cutoff_time = now - hours window_hours;
          relevant_metrics = metrics_since metrics_history name cutoff_time
      in if length relevant_metrics < 2 then Inr (InsufficientData name)
         else
           (let values = map m_value relevant_metrics in
            bind_err (mean values) (\<lambda>mean_value'.
            bind_err (median values) (\<lambda>median_value'.
            bind_err (if length values > 1 then stdev values else Inr 0) (\<lambda>std_dev'.
            bind_err (py_min values) (\<lambda>min_value'.
            bind_err (py_max values) (\<lambda>max_value'.
            bind_err (calculate_trend_direction values) (\<lambda>trend_direction'.
            bind_err
              (if length values \<ge> 2
               then bind_err (float_truediv (last values - hd values) (hd values))
                      (\<lambda>q. Inr (q * 100))
               else Inr 0) (\<lambda>change_rate.
            bind_err (detect_anomalies values) (\<lambda>anomalies'.
            bind_err (calculate_stability_score values) (\<lambda>stability_score'.
              Inr (TrendAnalysis
                \<lparr>metric_name = name, time_window_hours = window_hours,
                 data_points = length values, trend_direction = trend_direction',
                 mean_value = mean_value', median_value = median_value',
                 std_dev = std_dev', min_value = min_value', max_value = max_value',
                 range_value = max_value' - min_value',
                 change_rate_percent = change_rate,
                 stability_score = stability_score',
                 anomalies_count = length anomalies', anomalies = anomalies',
                 latest_value = last values,
                 trend_analysis_text =
                   generate_trend_analysis trend_direction' change_rate
                     stability_score'\<rparr>))))))))))))"


section \<open>predictive_performance.py: prediction\<close>



definition calculate_slope :: "nat list \<Rightarrow> real list \<Rightarrow> stat_error + real" where
  "calculate_slope x y =
     (let n = length x in
      if n < 2 then Inr 0
      else if length y < n then Inl IndexError
      else
        (let sum_x = sum_list x;
             sum_y = sum_list y;
             sum_xy = sum_list (map (\<lambda>i. real (x ! i) * y ! i) [0..<n]);
             sum_x2 = sum_list (map (\<lambda>i. (x ! i)\<^sup>2) [0..<n]);
             denominator = int (n * sum_x2) - int (sum_x\<^sup>2)
         in if denominator = 0 then Inr 0
            else float_truediv (real n * sum_xy - real sum_x * sum_y)
                   (real_of_int denominator)))"











section \<open>Predicates and observers used in the statements\<close>

text \<open>An execution record carries one of the four status strings that the runner and the
  parallel handler write.\<close>

definition valid_status :: "execution_record \<Rightarrow> bool" where
  "valid_status r = (status r \<in> set [''PASS'', ''FAIL'', ''TIMEOUT'', ''ERROR''])"

text \<open>In a group's counters the four outcome counts add up to the group's total.\<close>

definition balanced :: "counts \<Rightarrow> bool" where
  "balanced c = (passed c + failed c + timeout c + error c = total c)"

text \<open>Every print of one call of the runner succeeds; every print of a scheduler
  succeeds.\<close>

definition quiet :: "run_env \<Rightarrow> bool" where
  "quiet env =
     (print_start env = None \<and> print_pass env = None \<and> print_fail env = None \<and>
      print_stderr env = None \<and> print_timeout env = None \<and> print_error env = None)"

definition quiet_scheduler :: "sched_env \<Rightarrow> nat \<Rightarrow> bool" where
  "quiet_scheduler sched n =
     (print_banner sched = None \<and> print_rule sched = None \<and>
      list_all (\<lambda>i. print_handler sched i = None) [0..<n])"

text \<open>The trend classification carried by a result of \<open>analyze_performance_trends\<close>, if it
  carries one.\<close>

fun trend_of :: "stat_error + trend_result \<Rightarrow> TrendDirection option" where
  "trend_of (Inr (TrendAnalysis r)) = Some (trend_direction r)"
| "trend_of (Inr (InsufficientData name)) = None"
| "trend_of (Inl e) = None"


section \<open>Sample inputs\<close>

text \<open>A discovered descriptor of the adapter module \<open>name\<close>, and a world in which the
  interpreter \<open>python3\<close> answers the command line of that test with the given outcome and
  every print succeeds.\<close>

definition sample_info :: "string \<Rightarrow> test_info" where
  "sample_info name =
     \<lparr>ti_module_name = Some name, ti_module_type = Some ''adapter'',
      ti_test_type = Some ''unit'',
      ti_test_file =
        Some (''/'', [''opt'', ''powerautomation'', ''mcp'', ''adapter'', name, ''unit_tests'',
                      ''test_a.py'']),
      ti_test_path = Some (''mcp/adapter/'' @ name @ ''/unit_tests/test_a.py'')\<rparr>"

definition sample_env :: "string \<Rightarrow> proc_outcome \<Rightarrow> run_env" where
  "sample_env name outcome =
     \<lparr>t_start = 0, t_end = 2500000, sys_executable = ''python3'',
      subprocess_run =
        (\<lambda>cmd. if cmd = [''python3'', ''-m'', ''unittest'',
                           ''mcp.adapter.'' @ name @ ''.unit_tests.test_a'']
               then outcome else Raised ''unexpected command''),
      print_start = None, print_pass = None, print_fail = None, print_stderr = None,
      print_timeout = None, print_error = None\<rparr>"

text \<open>The exception of a print on a standard output whose encoding is ASCII, for a text
  that starts with the character of the given code.\<close>

definition ascii_encode_error :: "string \<Rightarrow> py_exception" where
  "ascii_encode_error code =
     PyException ''UnicodeEncodeError''
       (CHR 0x27 # ''ascii'' @ CHR 0x27 # '' codec can'' @ CHR 0x27 # ''t encode character ''
        @ CHR 0x27 # CHR 0x5C # code @ CHR 0x27
        # '' in position 0: ordinal not in range(128)'')"

text \<open>The same world with an ASCII standard output: every print of the runner that
  starts with an emoji raises (the line of the error output starts with spaces and
  raises at its first Chinese character, in position 3, and is not used below).\<close>

definition ascii_env :: "string \<Rightarrow> proc_outcome \<Rightarrow> run_env" where
  "ascii_env name outcome =
     (sample_env name outcome)
       \<lparr>print_start := Some (ascii_encode_error ''U0001f9ea''),
        print_pass := Some (ascii_encode_error ''u2705''),
        print_fail := Some (ascii_encode_error ''u274c''),
        print_timeout := Some (ascii_encode_error ''u23f0''),
        print_error := Some (ascii_encode_error ''U0001f4a5'')\<rparr>"

definition quiet_sched :: sched_env where
  "quiet_sched =
     \<lparr>print_banner = None, print_rule = None, handler_clock = (\<lambda>i. (7, 8)),
      print_handler = (\<lambda>i. None)\<rparr>"

text \<open>With an ASCII standard output the banner of a scheduler (it starts with an emoji)
  and the line of the parallel handler raise; the rule of 80 equals signs does not.\<close>

definition ascii_sched :: sched_env where
  "ascii_sched =
     \<lparr>print_banner = Some (ascii_encode_error ''U0001f680''), print_rule = None,
      handler_clock = (\<lambda>i. (7, 8)),
      print_handler = (\<lambda>i. Some (ascii_encode_error ''U0001f4a5''))\<rparr>"

text \<open>Two tests: the first passes, the second runs into the timeout.\<close>

definition sample_envs :: "nat \<Rightarrow> run_env" where
  "sample_envs i =
     (if i = 0 then sample_env ''a'' (Completed 0 ''OK'' '''')
      else sample_env ''b'' TimeoutExpired)"

text \<open>The exception of a print on a standard output whose reader has closed the pipe.\<close>

definition broken_pipe :: py_exception where
  "broken_pipe = PyException ''BrokenPipeError'' ''[Errno 32] Broken pipe''"

text \<open>The same two tests when the pipe is closed before the second test starts: from
  then on every print raises, in the runner and in the handler of the parallel
  scheduler.\<close>

definition failing_envs :: "nat \<Rightarrow> run_env" where
  "failing_envs i =
     (if i = 0 then sample_env ''a'' (Completed 0 ''OK'' '''')
      else (sample_env ''b'' TimeoutExpired)
             \<lparr>print_start := Some broken_pipe, print_pass := Some broken_pipe,
              print_fail := Some broken_pipe, print_stderr := Some broken_pipe,
              print_timeout := Some broken_pipe, print_error := Some broken_pipe\<rparr>)"

definition broken_sched :: sched_env where
  "broken_sched = quiet_sched\<lparr>print_handler := (\<lambda>i. Some broken_pipe)\<rparr>"

definition sample_record :: "string \<Rightarrow> string \<Rightarrow> string \<Rightarrow> execution_record" where
  "sample_record name kind st =
     \<lparr>mod_name = name, test_type = kind, test_file = ''test_a.py'',
      test_path = ''mcp/adapter/'' @ name @ ''/unit_tests/test_a.py'',
      status = st, duration = 1, start_time = 0, end_time = 1000000,
      stdout = '''', stderr = '''', return_code = (if st = ''PASS'' then 0 else 1)\<rparr>"

definition sample_futures :: "nat \<Rightarrow> py_exception + execution_record" where
  "sample_futures i =
     (if i = 0 then Inl (PyException ''RuntimeError'' ''worker failed'')
      else Inr (sample_record ''b'' ''unit'' ''PASS''))"

definition sample_clock :: report_env where
  "sample_clock =
     \<lparr>execution_start_time = 0, execution_end_time = 4000000, id_stamp = ''20250617_120000''\<rparr>"



definition sample_metric :: "string \<Rightarrow> int \<Rightarrow> real \<Rightarrow> PerformanceMetric" where
  "sample_metric name t v =
     \<lparr>m_name = name, m_value = v, m_unit = ''seconds'', m_timestamp = t,
      m_threshold_warning = Some 30, m_threshold_critical = Some 60\<rparr>"

definition sample_history :: "real list \<Rightarrow> PerformanceMetric list" where
  "sample_history vs = map (sample_metric ''execution_time'' 0) vs"


section \<open>The runner\<close>

text \<open>When every print succeeds, the runner returns a record for a well-formed
  descriptor, classified by the outcome of the subprocess.\<close>

lemma execute_single_test_quiet:
  assumes "well_formed info" and "quiet env"
  shows "\<exists>r. execute_single_test env info = Inr r \<and>
           mod_name r = the (ti_module_name info) \<and>
           test_type r = the (ti_test_type info) \<and>
           test_file r = path_name (the (ti_test_file info)) \<and>
           test_path r = the (ti_test_path info) \<and>
           (case subprocess_run env (build_cmd env (the (ti_test_path info))) of
              Completed returncode out err \<Rightarrow>
                status r = (if returncode = 0 then ''PASS'' else ''FAIL'') \<and>
                return_code r = returncode \<and>
                duration r = total_seconds (t_end env - t_start env)
            | TimeoutExpired \<Rightarrow> status r = ''TIMEOUT'' \<and> duration r = 300
            | Raised msg \<Rightarrow> status r = ''ERROR'' \<and> duration r = 0 \<and> stderr r = msg)"
  using assms
  by (cases "subprocess_run env (build_cmd env (the (ti_test_path info)))")
     (auto simp: well_formed_def quiet_def execute_single_test_def try_block_def bind_err_def
      getitem_def print_line_def print_in_try_def Let_def)

lemma execute_single_test_returns:
  "well_formed info \<Longrightarrow> quiet env \<Longrightarrow> \<exists>r. execute_single_test env info = Inr r"
  using execute_single_test_quiet by blast

text \<open>An exception of the announcement (line 91) reaches the caller, whatever the
  descriptor's test would have done.\<close>

lemma execute_single_test_start_raises:
  "well_formed info \<Longrightarrow> print_start env = Some e \<Longrightarrow> execute_single_test env info = Inl e"
  by (auto simp: well_formed_def execute_single_test_def bind_err_def getitem_def
      print_line_def)

lemma sample_cmd:
  "build_cmd (sample_env name outcome) (''mcp/adapter/m/unit_tests/test_a.py'')
     = [''python3'', ''-m'', ''unittest'', ''mcp.adapter.m.unit_tests.test_a'']"
  by (simp add: build_cmd_def sample_env_def str_replace_def)

text \<open>
  Claim C2 (the code falls short of it). With a standard output whose encoding is ASCII
  the announcement of line 91 raises \<open>UnicodeEncodeError\<close> before the \<open>try\<close> statement, and
  the runner raises it to its caller instead of returning a record, although the
  descriptor is well formed and the test would exit with code 0. And when the line of a
  passed test (line 130, inside the \<open>try\<close>) cannot be written because the pipe is closed,
  the exception is caught as if the test had failed to run: exit code 0 gives an ERROR
  record, not PASS.
\<close>

theorem runner_print_escapes:
  "well_formed (sample_info ''m'') \<and>
   execute_single_test (ascii_env ''m'' (Completed 0 ''OK'' '''')) (sample_info ''m'')
     = Inl (ascii_encode_error ''U0001f9ea'') \<and>
   execute_single_test
     ((sample_env ''m'' (Completed 0 ''OK'' ''''))\<lparr>print_pass := Some broken_pipe\<rparr>)
     (sample_info ''m'')
     = Inr \<lparr>mod_name = ''m'', test_type = ''unit'', test_file = ''test_a.py'',
            test_path = ''mcp/adapter/m/unit_tests/test_a.py'', status = ''ERROR'',
            duration = 0, start_time = 0, end_time = 2500000, stdout = '''',
            stderr = ''[Errno 32] Broken pipe'', return_code = - 2\<rparr>"
proof -
  have wf: "well_formed (sample_info ''m'')"
    by (simp add: well_formed_def sample_info_def)
  have a: "execute_single_test (ascii_env ''m'' (Completed 0 ''OK'' '''')) (sample_info ''m'')
     = Inl (ascii_encode_error ''U0001f9ea'')"
    by (rule execute_single_test_start_raises [OF wf]) (simp add: ascii_env_def)
  have b: "execute_single_test
     ((sample_env ''m'' (Completed 0 ''OK'' ''''))\<lparr>print_pass := Some broken_pipe\<rparr>)
     (sample_info ''m'')
     = Inr \<lparr>mod_name = ''m'', test_type = ''unit'', test_file = ''test_a.py'',
            test_path = ''mcp/adapter/m/unit_tests/test_a.py'', status = ''ERROR'',
            duration = 0, start_time = 0, end_time = 2500000, stdout = '''',
            stderr = ''[Errno 32] Broken pipe'', return_code = - 2\<rparr>"
    by (simp add: execute_single_test_def try_block_def bind_err_def getitem_def
        print_line_def print_in_try_def sample_info_def sample_env_def build_cmd_def
        str_replace_def path_name_def broken_pipe_def Let_def)
  from wf a b show ?thesis by simp
qed


section \<open>The schedulers\<close>

text \<open>When every print succeeds, the sequential loop returns the runner's record of each
  descriptor, in order.\<close>

lemma sequential_loop_complete:
  "list_all well_formed ts \<Longrightarrow> list_all (\<lambda>i. quiet (env (k + i))) [0..<length ts] \<Longrightarrow>
   \<exists>rs. sequential_loop env k ts acc = Inr (acc @ rs) \<and>
        map Inr rs = map (\<lambda>i. execute_single_test (env (k + i)) (ts ! i)) [0..<length ts]"
proof (induction ts arbitrary: k acc)
  case Nil
  then show ?case by simp
next
  case (Cons t ts)
  have q: "\<And>i. i < Suc (length ts) \<Longrightarrow> quiet (env (k + i))"
    using Cons.prems(2) by (auto simp: list_all_iff simp del: upt_Suc)
  have "quiet (env k)"
    using q [of 0] by simp
  then obtain r where r: "execute_single_test (env k) t = Inr r"
    using Cons.prems(1) execute_single_test_returns [of t "env k"] by auto
  have rest: "list_all (\<lambda>i. quiet (env (Suc k + i))) [0..<length ts]"
  proof -
    have "quiet (env (Suc k + i))" if "i < length ts" for i
      using q [of "Suc i"] that by simp
    then show ?thesis by (simp add: list_all_iff)
  qed
  from Cons.IH [OF _ rest, of "acc @ [r]"] Cons.prems(1) obtain rs where rs:
    "sequential_loop env (Suc k) ts (acc @ [r]) = Inr ((acc @ [r]) @ rs)"
    "map Inr rs = map (\<lambda>i. execute_single_test (env (Suc k + i)) (ts ! i)) [0..<length ts]"
    by auto
  have "map Inr (r # rs) =
        map (\<lambda>i. execute_single_test (env (k + i)) ((t # ts) ! i)) [0..<length (t # ts)]"
    using r rs(2) by (simp add: map_upt_Suc del: upt_Suc)
  moreover have "sequential_loop env k (t # ts) acc = Inr (acc @ r # rs)"
    using r rs(1) by (simp add: bind_err_def)
  ultimately show ?case by blast
qed

lemma error_result_wf:
  "well_formed info \<Longrightarrow>
   error_result now info e =
     Inr \<lparr>mod_name = the (ti_module_name info), test_type = the (ti_test_type info),
          test_file = path_name (the (ti_test_file info)),
          test_path = the (ti_test_path info),
          status = ''ERROR'', duration = 0, start_time = fst now, end_time = snd now,
          stdout = '''', stderr = ''Execution error: '' @ str_of_exception e,
          return_code = - 3\<rparr>"
  by (auto simp: well_formed_def error_result_def bind_err_def getitem_def)

lemma collect_future_wf:
  "well_formed info \<Longrightarrow> print_handler sched i = None \<Longrightarrow>
   collect_future sched i info outcome =
     Inr (case outcome of
            Inr result \<Rightarrow> result
          | Inl e \<Rightarrow>
              \<lparr>mod_name = the (ti_module_name info), test_type = the (ti_test_type info),
               test_file = path_name (the (ti_test_file info)),
               test_path = the (ti_test_path info),
               status = ''ERROR'', duration = 0,
               start_time = fst (handler_clock sched i),
               end_time = snd (handler_clock sched i),
               stdout = '''', stderr = ''Execution error: '' @ str_of_exception e,
               return_code = - 3\<rparr>)"
  by (cases outcome)
     (simp_all add: collect_future_def error_result_wf bind_err_def print_line_def)

text \<open>A future that raised is lost with the whole list when the line of its handler
  cannot be printed.\<close>

lemma collect_future_print_raises:
  "well_formed info \<Longrightarrow> print_handler sched i = Some e' \<Longrightarrow>
   collect_future sched i info (Inl e) = Inl e'"
  by (simp add: collect_future_def error_result_wf bind_err_def print_line_def)

lemma collect_loop_complete:
  "list_all well_formed tms \<Longrightarrow>
   list_all (\<lambda>i. i < length tms \<and> print_handler sched i = None) order \<Longrightarrow>
   collect_loop sched futures tms order acc =
     Inr (acc @ map (\<lambda>i. case futures i of
                 Inr result \<Rightarrow> result
               | Inl e \<Rightarrow>
                   \<lparr>mod_name = the (ti_module_name (tms ! i)),
                    test_type = the (ti_test_type (tms ! i)),
                    test_file = path_name (the (ti_test_file (tms ! i))),
                    test_path = the (ti_test_path (tms ! i)),
                    status = ''ERROR'', duration = 0,
                    start_time = fst (handler_clock sched i),
                    end_time = snd (handler_clock sched i),
                    stdout = '''', stderr = ''Execution error: '' @ str_of_exception e,
                    return_code = - 3\<rparr>) order)"
proof (induction order arbitrary: acc)
  case Nil
  then show ?case by simp
next
  case (Cons i order)
  then have "well_formed (tms ! i)" and "print_handler sched i = None"
    by (simp_all add: list_all_iff)
  then show ?case
    using Cons by (simp add: bind_err_def collect_future_wf)
qed

text \<open>
  When every print succeeds, for well-formed descriptors, a completion order that is a
  permutation of the task numbers and at least one worker: the sequential scheduler
  returns, in input order, the record of the runner on each descriptor; the parallel
  scheduler returns the same records in completion order, hence the same multiset; and
  whatever the futures hold, the collection loop returns one record per task, the
  future's own or an ERROR record with exit code -3 built from the task's descriptor.
\<close>

lemma scheduler_completeness_quiet:
  assumes wf: "list_all well_formed test_modules"
    and perm: "mset order = mset [0..<length test_modules]"
    and workers: "1 \<le> max_workers"
    and runners: "list_all (\<lambda>i. quiet (env i)) [0..<length test_modules]"
    and prints: "quiet_scheduler sched (length test_modules)"
  shows "\<exists>seq par gen.
     execute_tests_sequential sched env test_modules = Inr seq \<and>
     length seq = length test_modules \<and>
     map Inr seq =
       map (\<lambda>i. execute_single_test (env i) (test_modules ! i)) [0..<length test_modules] \<and>
     execute_tests_parallel sched env test_modules max_workers order = Inr par \<and>
     length par = length test_modules \<and>
     par = map (\<lambda>i. seq ! i) order \<and>
     mset par = mset seq \<and>
     collect_completed sched futures test_modules max_workers order = Inr gen \<and>
     length gen = length test_modules \<and>
     gen = map (\<lambda>i. case futures i of
                 Inr result \<Rightarrow> result
               | Inl e \<Rightarrow>
                   \<lparr>mod_name = the (ti_module_name (test_modules ! i)),
                    test_type = the (ti_test_type (test_modules ! i)),
                    test_file = path_name (the (ti_test_file (test_modules ! i))),
                    test_path = the (ti_test_path (test_modules ! i)),
                    status = ''ERROR'', duration = 0,
                    start_time = fst (handler_clock sched i),
                    end_time = snd (handler_clock sched i),
                    stdout = '''', stderr = ''Execution error: '' @ str_of_exception e,
                    return_code = - 3\<rparr>) order"
proof -
  let ?n = "length test_modules"
  have banner: "print_banner sched = None" "print_rule sched = None"
    using prints by (simp_all add: quiet_scheduler_def)
  have handlers: "\<And>i. i < ?n \<Longrightarrow> print_handler sched i = None"
    using prints by (simp add: quiet_scheduler_def list_all_iff)
  have len: "length order = ?n"
    using perm by (metis length_upt mset_eq_length minus_nat.diff_0)
  have set_order: "set order = {0..<?n}"
    using perm by (metis mset_eq_setD set_upt)
  then have bounded: "list_all (\<lambda>i. i < ?n \<and> print_handler sched i = None) order"
    using handlers by (simp add: list_all_iff)
  have runners': "list_all (\<lambda>i. quiet (env (0 + i))) [0..<?n]"
    using runners by simp
  from sequential_loop_complete [OF wf runners', of "[]"]
  obtain seq where seq: "execute_tests_sequential sched env test_modules = Inr seq"
    and seq_map: "map Inr seq =
       map (\<lambda>i. execute_single_test (env i) (test_modules ! i)) [0..<?n]"
    using banner by (auto simp: execute_tests_sequential_def bind_err_def print_line_def)
  have seq_len: "length seq = ?n"
    using seq_map by (metis length_map length_upt minus_nat.diff_0)
  have seq_nth: "execute_single_test (env i) (test_modules ! i) = Inr (seq ! i)"
    if "i < ?n" for i
  proof -
    have "map Inr seq ! i =
       map (\<lambda>i. execute_single_test (env i) (test_modules ! i)) [0..<?n] ! i"
      using seq_map by simp
    then show ?thesis using that seq_len by simp
  qed
  have "execute_tests_parallel sched env test_modules max_workers order =
      Inr (map (\<lambda>i. case execute_single_test (env i) (test_modules ! i) of
                 Inr result \<Rightarrow> result
               | Inl e \<Rightarrow>
                   \<lparr>mod_name = the (ti_module_name (test_modules ! i)),
                    test_type = the (ti_test_type (test_modules ! i)),
                    test_file = path_name (the (ti_test_file (test_modules ! i))),
                    test_path = the (ti_test_path (test_modules ! i)),
                    status = ''ERROR'', duration = 0,
                    start_time = fst (handler_clock sched i),
                    end_time = snd (handler_clock sched i),
                    stdout = '''', stderr = ''Execution error: '' @ str_of_exception e,
                    return_code = - 3\<rparr>) order)"
    using workers banner collect_loop_complete [OF wf bounded, of _ "[]"]
    by (simp add: execute_tests_parallel_def collect_completed_def bind_err_def
        print_line_def)
  also have "\<dots> = Inr (map (\<lambda>i. seq ! i) order)"
    using set_order seq_nth by auto
  finally have par: "execute_tests_parallel sched env test_modules max_workers order =
      Inr (map (\<lambda>i. seq ! i) order)" .
  have "mset (map (\<lambda>i. seq ! i) order) = image_mset (\<lambda>i. seq ! i) (mset [0..<?n])"
    using perm by (metis mset_map)
  also have "\<dots> = mset (map (\<lambda>i. seq ! i) [0..<?n])"
    by simp
  also have "map (\<lambda>i. seq ! i) [0..<?n] = seq"
    using seq_len by (metis map_nth)
  finally have par_mset: "mset (map (\<lambda>i. seq ! i) order) = mset seq" .
  have gen: "collect_completed sched futures test_modules max_workers order =
      Inr (map (\<lambda>i. case futures i of
                 Inr result \<Rightarrow> result
               | Inl e \<Rightarrow>
                   \<lparr>mod_name = the (ti_module_name (test_modules ! i)),
                    test_type = the (ti_test_type (test_modules ! i)),
                    test_file = path_name (the (ti_test_file (test_modules ! i))),
                    test_path = the (ti_test_path (test_modules ! i)),
                    status = ''ERROR'', duration = 0,
                    start_time = fst (handler_clock sched i),
                    end_time = snd (handler_clock sched i),
                    stdout = '''', stderr = ''Execution error: '' @ str_of_exception e,
                    return_code = - 3\<rparr>) order)"
    using workers banner collect_loop_complete [OF wf bounded, of futures "[]"]
    by (simp add: collect_completed_def bind_err_def print_line_def)
  show ?thesis
    apply (rule exI [of _ seq])
    apply (rule exI [of _ "map (\<lambda>i. seq ! i) order"])
    apply (intro exI conjI)
             apply (rule seq)
            apply (rule seq_len)
           apply (rule seq_map)
          apply (rule par)
         apply (simp add: len)
        apply (rule refl)
       apply (rule par_mset)
      apply (rule gen)
     apply (simp add: len)
    apply (rule refl)
    done
qed

lemma sample_a_passes:
  "execute_single_test (sample_env ''a'' (Completed 0 ''OK'' '''')) (sample_info ''a'') =
     Inr \<lparr>mod_name = ''a'', test_type = ''unit'', test_file = ''test_a.py'',
          test_path = ''mcp/adapter/a/unit_tests/test_a.py'', status = ''PASS'',
          duration = 5 / 2, start_time = 0, end_time = 2500000, stdout = ''OK'',
          stderr = '''', return_code = 0\<rparr>"
  by (simp add: execute_single_test_def try_block_def bind_err_def getitem_def
      print_line_def print_in_try_def sample_info_def sample_env_def build_cmd_def
      str_replace_def path_name_def total_seconds_def Let_def)

text \<open>
  Claim C1 (the code falls short of it). Two discovered descriptors, \<open>a\<close> whose test
  passes and \<open>b\<close> whose test runs into the timeout. With an ASCII standard output both
  schedulers raise \<open>UnicodeEncodeError\<close> at their banner and return no list. When the
  banner is printed but the pipe is closed before the second test starts, the runner of
  \<open>b\<close> raises at its announcement: the sequential scheduler has no handler and raises,
  losing the record of \<open>a\<close>; the parallel scheduler (task 1 completing first) builds the
  ERROR record of \<open>b\<close> and then raises at the print of its handler, returning no list
  either.
\<close>

theorem scheduler_print_escapes:
  "list_all well_formed [sample_info ''a'', sample_info ''b''] \<and>
   mset [1, 0] = mset [0..<length [sample_info ''a'', sample_info ''b'']] \<and>
   execute_tests_sequential ascii_sched sample_envs [sample_info ''a'', sample_info ''b'']
     = Inl (ascii_encode_error ''U0001f680'') \<and>
   execute_tests_parallel ascii_sched sample_envs [sample_info ''a'', sample_info ''b'']
     4 [1, 0] = Inl (ascii_encode_error ''U0001f680'') \<and>
   execute_tests_sequential quiet_sched failing_envs [sample_info ''a'', sample_info ''b'']
     = Inl broken_pipe \<and>
   execute_tests_parallel broken_sched failing_envs [sample_info ''a'', sample_info ''b'']
     4 [1, 0] = Inl broken_pipe"
proof -
  have wfa: "well_formed (sample_info ''a'')" and wfb: "well_formed (sample_info ''b'')"
    by (simp_all add: well_formed_def sample_info_def)
  have wf: "list_all well_formed [sample_info ''a'', sample_info ''b'']"
    using wfa wfb by simp
  have perm: "mset [1, 0] = mset [0..<length [sample_info ''a'', sample_info ''b'']]"
    by (simp add: upt_rec)
  have s1: "execute_tests_sequential ascii_sched sample_envs
              [sample_info ''a'', sample_info ''b''] = Inl (ascii_encode_error ''U0001f680'')"
    by (simp add: execute_tests_sequential_def ascii_sched_def bind_err_def print_line_def)
  have p1: "execute_tests_parallel ascii_sched sample_envs
              [sample_info ''a'', sample_info ''b''] 4 [1, 0]
              = Inl (ascii_encode_error ''U0001f680'')"
    by (simp add: execute_tests_parallel_def collect_completed_def ascii_sched_def
        bind_err_def print_line_def)
  have fa: "execute_single_test (failing_envs 0) (sample_info ''a'') =
     Inr \<lparr>mod_name = ''a'', test_type = ''unit'', test_file = ''test_a.py'',
          test_path = ''mcp/adapter/a/unit_tests/test_a.py'', status = ''PASS'',
          duration = 5 / 2, start_time = 0, end_time = 2500000, stdout = ''OK'',
          stderr = '''', return_code = 0\<rparr>"
    using sample_a_passes by (simp add: failing_envs_def)
  have fb: "execute_single_test (failing_envs (Suc 0)) (sample_info ''b'') = Inl broken_pipe"
    by (rule execute_single_test_start_raises [OF wfb])
       (simp add: failing_envs_def sample_env_def)
  have s2: "execute_tests_sequential quiet_sched failing_envs
              [sample_info ''a'', sample_info ''b''] = Inl broken_pipe"
    by (simp add: execute_tests_sequential_def quiet_sched_def bind_err_def print_line_def
        fa fb)
  have hb: "collect_future broken_sched (Suc 0) (sample_info ''b'') (Inl broken_pipe)
              = Inl broken_pipe"
    by (rule collect_future_print_raises [OF wfb]) (simp add: broken_sched_def quiet_sched_def)
  have bs: "print_banner broken_sched = None" "print_rule broken_sched = None"
    by (simp_all add: broken_sched_def quiet_sched_def)
  have p2: "execute_tests_parallel broken_sched failing_envs
              [sample_info ''a'', sample_info ''b''] 4 [1, 0] = Inl broken_pipe"
    by (simp add: execute_tests_parallel_def collect_completed_def bind_err_def
        print_line_def fb hb bs)
  from wf perm s1 p1 s2 p2 show ?thesis by simp
qed


section \<open>The report's counts agree\<close>

lemma dict_contains_iff: "dict_contains k d \<longleftrightarrow> k \<in> fst ` set d"
  by (simp add: dict_contains_def map_of_eq_None_iff)

lemma dict_set_fresh: "k \<notin> fst ` set d \<Longrightarrow> dict_set k v d = d @ [(k, v)]"
  by (induction d) auto

lemma dict_apply_keys: "map fst (dict_apply k f d) = map fst d"
  by (induction d) auto

lemma count_status_total: "total (count_status st c) = Suc (total c)"
  by (simp add: count_status_def Let_def)

lemma dict_apply_total:
  "k \<in> fst ` set d \<Longrightarrow>
   sum_list (map (\<lambda>p. total (snd p)) (dict_apply k (count_status st) d))
     = Suc (sum_list (map (\<lambda>p. total (snd p)) d))"
  by (induction d) (auto simp: count_status_total)

lemma count_status_balanced:
  "st \<in> set [''PASS'', ''FAIL'', ''TIMEOUT'', ''ERROR''] \<Longrightarrow> balanced c
     \<Longrightarrow> balanced (count_status st c)"
  by (auto simp: balanced_def count_status_def Let_def)

lemma dict_apply_balanced:
  "list_all (\<lambda>p. balanced (snd p)) d \<Longrightarrow> (\<And>c. balanced c \<Longrightarrow> balanced (f c))
     \<Longrightarrow> list_all (\<lambda>p. balanced (snd p)) (dict_apply k f d)"
  by (induction d) auto

lemma add_result_keys:
  "distinct (map fst stats) \<Longrightarrow> distinct (map fst (add_result key st stats))"
  by (auto simp: add_result_def Let_def dict_contains_iff dict_set_fresh dict_apply_keys)

lemma add_result_total:
  "sum_list (map (\<lambda>p. total (snd p)) (add_result key st stats))
     = Suc (sum_list (map (\<lambda>p. total (snd p)) stats))"
proof (cases "key \<in> fst ` set stats")
  case True
  then show ?thesis
    by (simp add: add_result_def dict_contains_iff dict_apply_total)
next
  case False
  then have "sum_list (map (\<lambda>p. total (snd p))
               (dict_apply key (count_status st) (stats @ [(key, zero_counts)])))
             = Suc (sum_list (map (\<lambda>p. total (snd p)) (stats @ [(key, zero_counts)])))"
    by (intro dict_apply_total) simp
  with False show ?thesis
    by (simp add: add_result_def dict_contains_iff dict_set_fresh zero_counts_def)
qed

lemma add_result_balanced:
  assumes "st \<in> set [''PASS'', ''FAIL'', ''TIMEOUT'', ''ERROR'']"
    and "list_all (\<lambda>p. balanced (snd p)) stats"
  shows "list_all (\<lambda>p. balanced (snd p)) (add_result key st stats)"
proof -
  have z: "balanced zero_counts" by (simp add: balanced_def zero_counts_def)
  have step: "\<And>c. balanced c \<Longrightarrow> balanced (count_status st c)"
    using assms(1) by (rule count_status_balanced)
  show ?thesis
  proof (cases "key \<in> fst ` set stats")
    case True
    then show ?thesis
      using assms(2) step by (simp add: add_result_def dict_contains_iff dict_apply_balanced)
  next
    case False
    have "list_all (\<lambda>p. balanced (snd p)) (stats @ [(key, zero_counts)])"
      using assms(2) z by simp
    then have "list_all (\<lambda>p. balanced (snd p))
                 (dict_apply key (count_status st) (stats @ [(key, zero_counts)]))"
      using step by (rule dict_apply_balanced)
    with False show ?thesis
      by (simp add: add_result_def dict_contains_iff dict_set_fresh)
  qed
qed

lemma foldl_add_result:
  "list_all valid_status rs \<Longrightarrow> distinct (map fst acc)
     \<Longrightarrow> list_all (\<lambda>p. balanced (snd p)) acc \<Longrightarrow>
   sum_list (map (\<lambda>p. total (snd p))
      (foldl (\<lambda>stats r. add_result (key r) (status r) stats) acc rs))
     = sum_list (map (\<lambda>p. total (snd p)) acc) + length rs \<and>
   distinct (map fst (foldl (\<lambda>stats r. add_result (key r) (status r) stats) acc rs)) \<and>
   list_all (\<lambda>p. balanced (snd p))
     (foldl (\<lambda>stats r. add_result (key r) (status r) stats) acc rs)"
proof (induction rs arbitrary: acc)
  case Nil
  then show ?case by simp
next
  case (Cons r rs)
  have st: "status r \<in> set [''PASS'', ''FAIL'', ''TIMEOUT'', ''ERROR'']"
    using Cons.prems(1) by (simp add: valid_status_def)
  have rest: "list_all valid_status rs"
    using Cons.prems(1) by simp
  have d: "distinct (map fst (add_result (key r) (status r) acc))"
    using Cons.prems(2) by (rule add_result_keys)
  have b: "list_all (\<lambda>p. balanced (snd p)) (add_result (key r) (status r) acc)"
    using st Cons.prems(3) by (rule add_result_balanced)
  from Cons.IH [OF rest d b] show ?case
    by (simp add: add_result_total)
qed

lemma group_stats_consistent:
  "list_all valid_status rs \<Longrightarrow>
   sum_list (map (\<lambda>p. total (snd p)) (group_stats key rs)) = length rs \<and>
   distinct (map fst (group_stats key rs)) \<and>
   list_all (\<lambda>p. balanced (snd p)) (group_stats key rs)"
  using foldl_add_result [of rs "[]" key] by (simp add: group_stats_def)

lemma count_with_sum:
  "list_all valid_status rs \<Longrightarrow>
   count_with ''PASS'' rs + count_with ''FAIL'' rs + count_with ''TIMEOUT'' rs
     + count_with ''ERROR'' rs = length rs"
  by (induction rs) (auto simp: count_with_def valid_status_def)

lemma generate_report_returns:
  "generate_comprehensive_report clk rs =
     Inr \<lparr>test_execution_id = ''MCP_TestExecution_'' @ id_stamp clk,
          execution_summary =
            \<lparr>summary_start_time = execution_start_time clk,
             summary_end_time = execution_end_time clk,
             total_duration = total_seconds (execution_end_time clk - execution_start_time clk),
             total_tests = length rs, passed_tests = count_with ''PASS'' rs,
             failed_tests = count_with ''FAIL'' rs, timeout_tests = count_with ''TIMEOUT'' rs,
             error_tests = count_with ''ERROR'' rs,
             success_rate = (if length rs = 0 then 0
                             else real (count_with ''PASS'' rs) / real (length rs) * 100)\<rparr>,
          module_statistics = group_stats mod_name rs,
          type_statistics = group_stats test_type rs,
          detailed_results = rs,
          failed_tests_summary =
            map failed_entry
              (filter (\<lambda>r. status r \<in> set [''FAIL'', ''TIMEOUT'', ''ERROR'']) rs)\<rparr>"
  by (simp add: generate_comprehensive_report_def Let_def bind_err_def int_truediv_def)

lemma report_statistics:
  "generate_comprehensive_report clk rs = Inr rep \<Longrightarrow>
   module_statistics rep = group_stats mod_name rs \<and>
   type_statistics rep = group_stats test_type rs"
  by (auto simp: generate_report_returns)

lemma report_summary:
  "generate_comprehensive_report clk rs = Inr rep \<Longrightarrow>
   total_tests (execution_summary rep) = length rs \<and>
   passed_tests (execution_summary rep) = count_with ''PASS'' rs"
  by (auto simp: generate_report_returns)

text \<open>
  Claim C3. For a list of execution records (each with one of the four statuses),
  \<open>generate_comprehensive_report\<close> returns a report whose \<open>detailed_results\<close> is the list
  given, whose \<open>total_tests\<close> is its length, and whose per-module totals and per-kind
  totals each sum to \<open>total_tests\<close>; every module and every kind has one entry, and in
  every group and in the summary the passed, failed, timeout and error counts sum to the
  total.
\<close>

theorem report_consistency:
  assumes "list_all valid_status test_results"
  shows "\<exists>rep. generate_comprehensive_report clk test_results = Inr rep \<and>
     detailed_results rep = test_results \<and>
     total_tests (execution_summary rep) = length (detailed_results rep) \<and>
     sum_list (map (\<lambda>p. total (snd p)) (module_statistics rep))
       = total_tests (execution_summary rep) \<and>
     sum_list (map (\<lambda>p. total (snd p)) (type_statistics rep))
       = total_tests (execution_summary rep) \<and>
     distinct (map fst (module_statistics rep)) \<and>
     distinct (map fst (type_statistics rep)) \<and>
     list_all (\<lambda>p. balanced (snd p)) (module_statistics rep) \<and>
     list_all (\<lambda>p. balanced (snd p)) (type_statistics rep) \<and>
     passed_tests (execution_summary rep) + failed_tests (execution_summary rep)
       + timeout_tests (execution_summary rep) + error_tests (execution_summary rep)
       = total_tests (execution_summary rep)"
  using group_stats_consistent [OF assms, of mod_name]
    group_stats_consistent [OF assms, of test_type] count_with_sum [OF assms]
  by (simp add: generate_report_returns)

theorem report_consistency_witness:
  "list_all valid_status
     [sample_record ''a'' ''unit'' ''PASS'', sample_record ''a'' ''integration'' ''FAIL'',
      sample_record ''b'' ''unit'' ''TIMEOUT''] \<and>
   (\<exists>rep. generate_comprehensive_report sample_clock
       [sample_record ''a'' ''unit'' ''PASS'', sample_record ''a'' ''integration'' ''FAIL'',
        sample_record ''b'' ''unit'' ''TIMEOUT''] = Inr rep \<and>
     total_tests (execution_summary rep) = 3 \<and>
     sum_list (map (\<lambda>p. total (snd p)) (module_statistics rep)) = 3 \<and>
     sum_list (map (\<lambda>p. total (snd p)) (type_statistics rep)) = 3 \<and>
     module_statistics rep =
       [(''a'', \<lparr>total = 2, passed = 1, failed = 1, timeout = 0, error = 0\<rparr>),
        (''b'', \<lparr>total = 1, passed = 0, failed = 0, timeout = 1, error = 0\<rparr>)] \<and>
     type_statistics rep =
       [(''unit'', \<lparr>total = 2, passed = 1, failed = 0, timeout = 1, error = 0\<rparr>),
        (''integration'', \<lparr>total = 1, passed = 0, failed = 1, timeout = 0, error = 0\<rparr>)])"
proof -
  let ?rs = "[sample_record ''a'' ''unit'' ''PASS'',
              sample_record ''a'' ''integration'' ''FAIL'',
              sample_record ''b'' ''unit'' ''TIMEOUT'']"
  have valid: "list_all valid_status ?rs"
    by (simp add: valid_status_def sample_record_def)
  from report_consistency [OF valid, of sample_clock]
  obtain rep where rep: "generate_comprehensive_report sample_clock ?rs = Inr rep"
    and res: "detailed_results rep = ?rs"
    and tot: "total_tests (execution_summary rep) = length (detailed_results rep)"
    and msum: "sum_list (map (\<lambda>p. total (snd p)) (module_statistics rep))
                 = total_tests (execution_summary rep)"
    and tsum: "sum_list (map (\<lambda>p. total (snd p)) (type_statistics rep))
                 = total_tests (execution_summary rep)"
    by blast
  have three: "total_tests (execution_summary rep) = 3"
    using tot res by simp
  have ms: "group_stats mod_name ?rs =
       [(''a'', \<lparr>total = 2, passed = 1, failed = 1, timeout = 0, error = 0\<rparr>),
        (''b'', \<lparr>total = 1, passed = 0, failed = 0, timeout = 1, error = 0\<rparr>)]"
    by (simp add: group_stats_def add_result_def dict_contains_def count_status_def
        zero_counts_def sample_record_def Let_def)
  have ts: "group_stats test_type ?rs =
       [(''unit'', \<lparr>total = 2, passed = 1, failed = 0, timeout = 1, error = 0\<rparr>),
        (''integration'', \<lparr>total = 1, passed = 0, failed = 1, timeout = 0, error = 0\<rparr>)]"
    by (simp add: group_stats_def add_result_def dict_contains_def count_status_def
        zero_counts_def sample_record_def Let_def)
  have m: "module_statistics rep =
       [(''a'', \<lparr>total = 2, passed = 1, failed = 1, timeout = 0, error = 0\<rparr>),
        (''b'', \<lparr>total = 1, passed = 0, failed = 0, timeout = 1, error = 0\<rparr>)]"
    using report_statistics [OF rep] unfolding ms by (rule conjunct1)
  have t: "type_statistics rep =
       [(''unit'', \<lparr>total = 2, passed = 1, failed = 0, timeout = 1, error = 0\<rparr>),
        (''integration'', \<lparr>total = 1, passed = 0, failed = 1, timeout = 0, error = 0\<rparr>)]"
    using report_statistics [OF rep] unfolding ts by (rule conjunct2)
  have m3: "sum_list (map (\<lambda>p. total (snd p)) (module_statistics rep)) = 3"
    using msum three by simp
  have t3: "sum_list (map (\<lambda>p. total (snd p)) (type_statistics rep)) = 3"
    using tsum three by simp
  show ?thesis
    using valid rep three m3 t3 m t by blast
qed

text \<open>
  Claim C4. \<open>generate_comprehensive_report\<close> returns a report for every list of records (no
  division error); its \<open>success_rate\<close> is \<open>passed_tests / total_tests * 100\<close>, that is 100
  times \<open>passed_tests\<close> over \<open>total_tests\<close>, when there is at least one record, and 0 when
  there is none. Floats are idealised as reals.
\<close>

theorem success_rate_formula:
  "\<exists>rep. generate_comprehensive_report clk test_results = Inr rep \<and>
     total_tests (execution_summary rep) = length test_results \<and>
     passed_tests (execution_summary rep) = count_with ''PASS'' test_results \<and>
     success_rate (execution_summary rep) =
       (if total_tests (execution_summary rep) \<ge> 1
        then 100 * real (passed_tests (execution_summary rep))
               / real (total_tests (execution_summary rep))
        else 0)"
  by (cases test_results) (simp_all add: generate_report_returns count_with_def)

theorem success_rate_formula_witness:
  "(\<exists>rep. generate_comprehensive_report sample_clock [] = Inr rep \<and>
      total_tests (execution_summary rep) = 0 \<and>
      success_rate (execution_summary rep) = 0) \<and>
   (\<exists>rep. generate_comprehensive_report sample_clock
       [sample_record ''a'' ''unit'' ''PASS'', sample_record ''b'' ''unit'' ''PASS'',
        sample_record ''c'' ''unit'' ''TIMEOUT'', sample_record ''d'' ''unit'' ''PASS'']
         = Inr rep \<and>
      total_tests (execution_summary rep) = 4 \<and>
      passed_tests (execution_summary rep) = 3 \<and>
      success_rate (execution_summary rep) = 75)"
proof -
  have a: "\<exists>rep. generate_comprehensive_report sample_clock [] = Inr rep \<and>
      total_tests (execution_summary rep) = 0 \<and>
      success_rate (execution_summary rep) = 0"
    using success_rate_formula [of sample_clock "[]"] by auto
  have c: "count_with ''PASS''
       [sample_record ''a'' ''unit'' ''PASS'', sample_record ''b'' ''unit'' ''PASS'',
        sample_record ''c'' ''unit'' ''TIMEOUT'', sample_record ''d'' ''unit'' ''PASS''] = 3"
    by (simp add: count_with_def sample_record_def)
  from success_rate_formula [of sample_clock
       "[sample_record ''a'' ''unit'' ''PASS'', sample_record ''b'' ''unit'' ''PASS'',
        sample_record ''c'' ''unit'' ''TIMEOUT'', sample_record ''d'' ''unit'' ''PASS'']"]
  obtain rep where rep: "generate_comprehensive_report sample_clock
       [sample_record ''a'' ''unit'' ''PASS'', sample_record ''b'' ''unit'' ''PASS'',
        sample_record ''c'' ''unit'' ''TIMEOUT'', sample_record ''d'' ''unit'' ''PASS'']
         = Inr rep"
    and tot: "total_tests (execution_summary rep) = 4"
    and pas: "passed_tests (execution_summary rep) = 3"
    and rate: "success_rate (execution_summary rep) =
       (if total_tests (execution_summary rep) \<ge> 1
        then 100 * real (passed_tests (execution_summary rep))
               / real (total_tests (execution_summary rep))
        else 0)"
    unfolding c by auto
  have "success_rate (execution_summary rep) = 75"
    using rate tot pas by simp
  with rep tot pas have b: "\<exists>rep. generate_comprehensive_report sample_clock
       [sample_record ''a'' ''unit'' ''PASS'', sample_record ''b'' ''unit'' ''PASS'',
        sample_record ''c'' ''unit'' ''TIMEOUT'', sample_record ''d'' ''unit'' ''PASS'']
         = Inr rep \<and>
      total_tests (execution_summary rep) = 4 \<and>
      passed_tests (execution_summary rep) = 3 \<and>
      success_rate (execution_summary rep) = 75"
    by blast
  from a b show ?thesis by (rule conjI)
qed


section \<open>A run that finds no test\<close>





section \<open>Statistics\<close>

lemma float_truediv_nz: "b \<noteq> 0 \<Longrightarrow> float_truediv a b = Inr (a / b)"
  by (simp add: float_truediv_def)

lemma mean_nonempty: "xs \<noteq> [] \<Longrightarrow> mean xs = Inr (sum_list xs / real (length xs))"
  by (simp add: mean_def)

lemma stdev_two:
  "2 \<le> length xs \<Longrightarrow>
   stdev xs = Inr (sqrt (sum_list (map (\<lambda>x. (x - sum_list xs / real (length xs))\<^sup>2) xs)
                          / real (length xs - 1)))"
  by (simp add: stdev_def Let_def)

lemma sort_nonempty: "xs \<noteq> [] \<Longrightarrow> sort xs \<noteq> []"
  by (metis length_0_conv length_sort)

lemma median_nonempty:
  "xs \<noteq> [] \<Longrightarrow>
   median xs = Inr (if length xs mod 2 = 1 then sort xs ! (length xs div 2)
                    else (sort xs ! (length xs div 2 - 1) + sort xs ! (length xs div 2)) / 2)"
  by (simp add: median_def Let_def sort_nonempty)

lemma py_min_nonempty: "xs \<noteq> [] \<Longrightarrow> \<exists>v. py_min xs = Inr v"
  by (cases xs) (simp_all add: py_min_def)

lemma py_max_nonempty: "xs \<noteq> [] \<Longrightarrow> \<exists>v. py_max xs = Inr v"
  by (cases xs) (simp_all add: py_max_def)

text \<open>The denominator of the regression slope over the indices \<open>0, \<dots>, n - 1\<close> is positive
  from two points on: twelve times it is \<open>(n - 1) n\<^sup>2 (n + 1)\<close>.\<close>

lemma sum_index: "2 * sum_list [0..<Suc n] = n * Suc n"
  by (induction n) simp_all

lemma sum_index_sq: "6 * sum_list (map (\<lambda>i. i\<^sup>2) [0..<Suc n]) = n * Suc n * (2 * n + 1)"
  by (induction n) (simp_all add: power2_eq_square algebra_simps)

lemma index_self: "map (\<lambda>i. f ([0..<n] ! i)) [0..<n] = map f [0..<n]"
  by (rule map_cong) simp_all

lemma regression_denominator:
  assumes "2 \<le> n"
  shows "real n * real (sum_list (map (\<lambda>i. i\<^sup>2) [0..<n])) - (real (sum_list [0..<n]))\<^sup>2 > 0"
proof -
  from assms obtain m where n: "n = Suc m" and m: "1 \<le> m"
    by (cases n) auto
  let ?S1 = "sum_list [0..<Suc m]" and ?S2 = "sum_list (map (\<lambda>i. i\<^sup>2) [0..<Suc m])"
  have s1: "2 * real ?S1 = real m * real (Suc m)"
    using sum_index [of m] by (metis of_nat_mult of_nat_numeral)
  have s2: "6 * real ?S2 = real m * real (Suc m) * (2 * real m + 1)"
    using sum_index_sq [of m]
    by (metis (mono_tags, lifting) of_nat_mult of_nat_numeral of_nat_add of_nat_1)
  have "12 * (real (Suc m) * real ?S2 - (real ?S1)\<^sup>2) =
        2 * real (Suc m) * (6 * real ?S2) - 3 * (2 * real ?S1)\<^sup>2"
    by (simp add: power2_eq_square algebra_simps)
  also have "\<dots> = real m * (real (Suc m))\<^sup>2 * (real m + 2)"
    unfolding s1 s2 by (simp add: power2_eq_square algebra_simps)
  also have "\<dots> > 0"
    using m by simp
  finally show ?thesis
    unfolding n by simp
qed

lemma calculate_slope_indexed:
  assumes "2 \<le> length values"
  shows "calculate_slope [0..<length values] values =
     Inr ((real (length values) * sum_list (map (\<lambda>i. real i * values ! i) [0..<length values])
            - real (sum_list [0..<length values]) * sum_list values)
          / (real (length values) * real (sum_list (map (\<lambda>i. i\<^sup>2) [0..<length values]))
             - (real (sum_list [0..<length values]))\<^sup>2))"
proof -
  let ?n = "length values"
  define S1 where "S1 = sum_list [0..<?n]"
  define S2 where "S2 = sum_list (map (\<lambda>i. i\<^sup>2) [0..<?n])"
  have pos: "real ?n * real S2 - (real S1)\<^sup>2 > 0"
    unfolding S1_def S2_def by (rule regression_denominator [OF assms])
  have den: "real_of_int (int (?n * S2) - int (S1\<^sup>2)) = real ?n * real S2 - (real S1)\<^sup>2"
    by simp
  have nz: "int (?n * S2) - int (S1\<^sup>2) \<noteq> 0"
    using pos den by (metis less_irrefl of_int_0)
  have xs: "map (\<lambda>i. ([0..<?n] ! i)\<^sup>2) [0..<?n] = map (\<lambda>i. i\<^sup>2) [0..<?n]"
    by (rule index_self)
  have xy: "map (\<lambda>i. real ([0..<?n] ! i) * values ! i) [0..<?n] =
            map (\<lambda>i. real i * values ! i) [0..<?n]"
    by (rule map_cong) simp_all
  have n2: "\<not> ?n < 2" "\<not> length values < ?n"
    using assms by simp_all
  have "calculate_slope [0..<?n] values =
     float_truediv (real ?n * sum_list (map (\<lambda>i. real i * values ! i) [0..<?n])
                     - real S1 * sum_list values)
       (real_of_int (int (?n * S2) - int (S1\<^sup>2)))"
    apply (simp only: calculate_slope_def Let_def length_upt minus_nat.diff_0)
    apply (simp only: xs xy n2 if_False)
    apply (simp only: S1_def [symmetric] S2_def [symmetric] nz if_False)
    done
  also have "\<dots> = Inr ((real ?n * sum_list (map (\<lambda>i. real i * values ! i) [0..<?n])
                     - real S1 * sum_list values) / (real ?n * real S2 - (real S1)\<^sup>2))"
    unfolding den float_truediv_def using pos by simp
  finally show ?thesis
    unfolding S1_def S2_def .
qed

text \<open>On five points the slope is \<open>(2 e + d - b - 2 a) / 10\<close>.\<close>

lemma calculate_slope_five:
  "calculate_slope [0..<5] [a, b, c, d, e] = Inr ((2 * e + d - b - 2 * a) / 10)"
proof -
  have five: "[0..<5] = [0, 1, 2, 3, 4]"
    by (simp add: upt_rec)
  have len: "length [a, b, c, d, e] = 5"
    by simp
  have le: "2 \<le> length [a, b, c, d, e]"
    by simp
  have val: "(real 5 * sum_list (map (\<lambda>i. real i * [a, b, c, d, e] ! i) [0..<5])
            - real (sum_list [0..<5]) * sum_list [a, b, c, d, e])
          / (real 5 * real (sum_list (map (\<lambda>i. i\<^sup>2) [0..<5]))
             - (real (sum_list [0..<5]))\<^sup>2) = (2 * e + d - b - 2 * a) / 10"
    unfolding five by simp
  show ?thesis
    using calculate_slope_indexed [OF le] unfolding len val .
qed


section \<open>Trend analysis\<close>

lemma calculate_trend_direction_three:
  assumes "3 \<le> length values"
  shows "\<exists>m s slope.
     mean values = Inr m \<and> stdev values = Inr s \<and>
     calculate_slope [0..<length values] values = Inr slope \<and>
     calculate_trend_direction values =
       Inr (if m \<noteq> 0 \<and> s / m > 0.3 then VOLATILE
            else if slope > 0.1 then IMPROVING
            else if slope < - 0.1 then DEGRADING
            else STABLE)"
proof -
  let ?n = "length values"
  define S1 where "S1 = sum_list [0..<?n]"
  define S2 where "S2 = sum_list (map (\<lambda>i. i\<^sup>2) [0..<?n])"
  define Sxy where "Sxy = sum_list (map (\<lambda>i. real i * values ! i) [0..<?n])"
  have two: "2 \<le> ?n" and ne: "values \<noteq> []"
    using assms by auto
  have pos: "real ?n * real S2 - (real S1)\<^sup>2 \<noteq> 0"
    using regression_denominator [OF two] unfolding S1_def S2_def by simp
  have xs: "map (\<lambda>i. ([0..<?n] ! i)\<^sup>2) [0..<?n] = map (\<lambda>i. i\<^sup>2) [0..<?n]"
    by (rule index_self)
  have xy: "map (\<lambda>i. real ([0..<?n] ! i) * values ! i) [0..<?n] =
            map (\<lambda>i. real i * values ! i) [0..<?n]"
    by (rule map_cong) simp_all
  obtain m where m: "mean values = Inr m"
    using mean_nonempty [OF ne] by simp
  obtain s where s: "stdev values = Inr s"
    using stdev_two [OF two] by simp
  define slope where "slope = (real ?n * Sxy - real S1 * sum_list values)
                               / (real ?n * real S2 - (real S1)\<^sup>2)"
  have sl: "calculate_slope [0..<?n] values = Inr slope"
    unfolding slope_def S1_def S2_def Sxy_def by (rule calculate_slope_indexed [OF two])
  have guards: "\<not> ?n < 3" "?n > 1"
    using assms by simp_all
  have div: "float_truediv (real ?n * Sxy - real S1 * sum_list values)
                (real ?n * real S2 - (real S1)\<^sup>2) = Inr slope"
    using pos by (simp add: float_truediv_def slope_def)
  have "calculate_trend_direction values =
       Inr (if m \<noteq> 0 \<and> s / m > 0.3 then VOLATILE
            else if slope > 0.1 then IMPROVING
            else if slope < - 0.1 then DEGRADING
            else STABLE)"
    unfolding calculate_trend_direction_def Let_def xs xy
    unfolding S1_def [symmetric] S2_def [symmetric] Sxy_def [symmetric]
    using guards by (simp add: div m s bind_err_def float_truediv_nz)
  with m s sl show ?thesis by blast
qed

lemma calculate_trend_direction_returns:
  "\<exists>t. calculate_trend_direction values = Inr t"
proof (cases "length values < 3")
  case True
  then show ?thesis by (simp add: calculate_trend_direction_def)
next
  case False
  then have "3 \<le> length values" by simp
  from calculate_trend_direction_three [OF this] show ?thesis by blast
qed

lemma detect_anomalies_returns: "\<exists>a. detect_anomalies values = Inr a"
  by (simp add: detect_anomalies_def mean_def stdev_def bind_err_def Let_def)

lemma calculate_stability_score_returns: "\<exists>v. calculate_stability_score values = Inr v"
  by (auto simp: calculate_stability_score_def mean_def stdev_def bind_err_def Let_def
        float_truediv_def)

lemma sample_history_window:
  "c \<le> 0 \<Longrightarrow> metrics_since (sample_history vs) ''execution_time'' c = sample_history vs"
  by (simp add: metrics_since_def sample_history_def sample_metric_def)

lemma sample_history_values: "map m_value (sample_history vs) = vs"
  by (simp add: sample_history_def sample_metric_def comp_def)

text \<open>With two samples or more the function returns the full result, unless the earliest
  sample of the window is 0.\<close>

lemma analyze_returns_trend:
  assumes vals: "values = map m_value (metrics_since metrics_history name (now - hours window_hours))"
    and two: "2 \<le> length values" and first: "hd values \<noteq> 0"
  shows "\<exists>r. analyze_performance_trends metrics_history now name window_hours
               = Inr (TrendAnalysis r) \<and>
             calculate_trend_direction values = Inr (trend_direction r) \<and>
             mean values = Inr (mean_value r) \<and> median values = Inr (median_value r) \<and>
             stdev values = Inr (std_dev r) \<and>
             py_min values = Inr (min_value r) \<and> py_max values = Inr (max_value r) \<and>
             change_rate_percent r = (last values - hd values) / hd values * 100 \<and>
             calculate_stability_score values = Inr (stability_score r) \<and>
             detect_anomalies values = Inr (anomalies r)"
proof -
  have ne: "values \<noteq> []" using two by auto
  obtain m where m: "mean values = Inr m" using mean_nonempty [OF ne] by simp
  obtain md where md: "median values = Inr md" using median_nonempty [OF ne] by simp
  obtain s where s: "stdev values = Inr s" using stdev_two [OF two] by simp
  obtain lo where lo: "py_min values = Inr lo" using py_min_nonempty [OF ne] by blast
  obtain hi where hi: "py_max values = Inr hi" using py_max_nonempty [OF ne] by blast
  obtain t where t: "calculate_trend_direction values = Inr t"
    using calculate_trend_direction_returns by blast
  obtain a where a: "detect_anomalies values = Inr a"
    using detect_anomalies_returns by blast
  obtain sc where sc: "calculate_stability_score values = Inr sc"
    using calculate_stability_score_returns by blast
  have len: "\<not> length (metrics_since metrics_history name (now - hours window_hours)) < 2"
    using two vals by simp
  show ?thesis
    unfolding analyze_performance_trends_def Let_def vals [symmetric]
    using len two first
    by (simp add: m md s lo hi t a sc bind_err_def float_truediv_nz)
qed

lemma analyze_zero_first:
  assumes vals: "values = map m_value (metrics_since metrics_history name (now - hours window_hours))"
    and two: "2 \<le> length values" and first: "hd values = 0"
  shows "analyze_performance_trends metrics_history now name window_hours
               = Inl ZeroDivisionError"
proof -
  have ne: "values \<noteq> []" using two by auto
  obtain m where m: "mean values = Inr m" using mean_nonempty [OF ne] by simp
  obtain md where md: "median values = Inr md" using median_nonempty [OF ne] by simp
  obtain s where s: "stdev values = Inr s" using stdev_two [OF two] by simp
  obtain lo where lo: "py_min values = Inr lo" using py_min_nonempty [OF ne] by blast
  obtain hi where hi: "py_max values = Inr hi" using py_max_nonempty [OF ne] by blast
  obtain t where t: "calculate_trend_direction values = Inr t"
    using calculate_trend_direction_returns by blast
  have len: "\<not> length (metrics_since metrics_history name (now - hours window_hours)) < 2"
    using two vals by simp
  show ?thesis
    unfolding analyze_performance_trends_def Let_def vals [symmetric]
    using len two first
    by (simp add: m md s lo hi t bind_err_def float_truediv_def)
qed

text \<open>
  Claim C6. When the window of a metric holds no sample or one,
  \<open>analyze_performance_trends\<close> returns the \<open>insufficient_data\<close> result with the metric's
  name: no exception, and no trend classification.
\<close>

theorem insufficient_data_sentinel:
  assumes "length (metrics_since metrics_history name (now - hours window_hours)) < 2"
  shows "analyze_performance_trends metrics_history now name window_hours
           = Inr (InsufficientData name) \<and>
         trend_of (analyze_performance_trends metrics_history now name window_hours) = None"
  using assms by (simp add: analyze_performance_trends_def Let_def)

theorem insufficient_data_sentinel_witness:
  "length (metrics_since
      [sample_metric ''execution_time'' (hours 900) 9,
       sample_metric ''cpu_usage'' (hours 999) 50,
       sample_metric ''execution_time'' (hours 999) 7]
      ''execution_time'' (hours 1000 - hours 24)) < 2 \<and>
   analyze_performance_trends
      [sample_metric ''execution_time'' (hours 900) 9,
       sample_metric ''cpu_usage'' (hours 999) 50,
       sample_metric ''execution_time'' (hours 999) 7]
      (hours 1000) ''execution_time'' 24 = Inr (InsufficientData ''execution_time'') \<and>
   analyze_performance_trends [] (hours 1000) ''execution_time'' 24
     = Inr (InsufficientData ''execution_time'')"
proof -
  have h: "length (metrics_since
      [sample_metric ''execution_time'' (hours 900) 9,
       sample_metric ''cpu_usage'' (hours 999) 50,
       sample_metric ''execution_time'' (hours 999) 7]
      ''execution_time'' (hours 1000 - hours 24)) < 2"
    by (simp add: metrics_since_def sample_metric_def hours_def)
  have e: "length (metrics_since [] ''execution_time'' (hours 1000 - hours 24)) < 2"
    by (simp add: metrics_since_def)
  from insufficient_data_sentinel [OF h] insufficient_data_sentinel [OF e] h
  show ?thesis by simp
qed

text \<open>
  Claim C5, as amended. For a window of at least two samples whose earliest sample is
  not 0, \<open>analyze_performance_trends\<close> returns a result whose trend direction is STABLE
  when the window has exactly two samples, whatever their spread, and from three samples
  on is VOLATILE when the mean is not 0 and the standard deviation over the mean exceeds
  0.3, whatever the slope; otherwise IMPROVING when the least-squares slope over the
  indices exceeds 0.1, DEGRADING when it is below -0.1, and STABLE in between.
\<close>

theorem trend_classification_precedence:
  assumes "values = map m_value (metrics_since metrics_history name (now - hours window_hours))"
    and "2 \<le> length values" and "hd values \<noteq> 0"
  shows "\<exists>r m s slope.
     analyze_performance_trends metrics_history now name window_hours = Inr (TrendAnalysis r) \<and>
     mean values = Inr m \<and> stdev values = Inr s \<and>
     calculate_slope [0..<length values] values = Inr slope \<and>
     trend_direction r =
       (if length values < 3 then STABLE
        else if m \<noteq> 0 \<and> s / m > 0.3 then VOLATILE
        else if slope > 0.1 then IMPROVING
        else if slope < - 0.1 then DEGRADING
        else STABLE)"
proof -
  from analyze_returns_trend [OF assms]
  obtain r where r: "analyze_performance_trends metrics_history now name window_hours
               = Inr (TrendAnalysis r)"
    and t: "calculate_trend_direction values = Inr (trend_direction r)"
    and m: "mean values = Inr (mean_value r)" and s: "stdev values = Inr (std_dev r)"
    by blast
  show ?thesis
  proof (cases "length values < 3")
    case True
    then have "trend_direction r = STABLE"
      using t by (simp add: calculate_trend_direction_def)
    with r m s True calculate_slope_indexed [OF assms(2)] show ?thesis
      by auto
  next
    case False
    then have "3 \<le> length values" by simp
    from calculate_trend_direction_three [OF this] r m s t False show ?thesis
      by auto
  qed
qed

text \<open>A noisy series that rises: the slope is 0.6, above 0.1, and the standard deviation is
  about 0.9 times the mean; the classification is VOLATILE.\<close>

theorem trend_classification_precedence_witness:
  "[1, 10, 2, 12, 3] = map m_value
     (metrics_since (sample_history [1, 10, 2, 12, 3]) ''execution_time'' (0 - hours 24)) \<and>
   calculate_slope [0..<5] [1, 10, 2, 12, 3] = Inr (3 / 5) \<and>
   mean [1, 10, 2, 12, 3] = Inr (28 / 5) \<and>
   stdev [1, 10, 2, 12, 3] = Inr (sqrt (253 / 10)) \<and>
   sqrt (253 / 10) / (28 / 5) > 0.3 \<and>
   trend_of (analyze_performance_trends (sample_history [1, 10, 2, 12, 3]) 0
               ''execution_time'' 24) = Some VOLATILE"
proof -
  have vals: "[1, 10, 2, 12, 3] = map m_value
     (metrics_since (sample_history [1, 10, 2, 12, 3]) ''execution_time'' (0 - hours 24))"
    by (simp add: sample_history_window sample_history_values hours_def)
  have sl: "calculate_slope [0..<5] [1, 10, 2, 12, 3] = Inr (3 / 5)"
    using calculate_slope_five [of 1 10 2 12 3] by simp
  have mn: "mean [1, 10, 2, 12, 3] = Inr (28 / 5)"
    by (simp add: mean_def)
  have sd: "stdev [1, 10, 2, 12, 3] = Inr (sqrt (253 / 10))"
    by (simp add: stdev_def Let_def power2_eq_square)
  have "(168 / 100)\<^sup>2 < (253 / 10 :: real)"
    by (simp add: power2_eq_square)
  then have "168 / 100 < sqrt (253 / 10)"
    by (rule real_less_rsqrt)
  then have cv: "sqrt (253 / 10) / (28 / 5) > 0.3"
    by simp
  have two: "2 \<le> length [1, 10, 2, 12, 3 :: real]" and first: "hd [1, 10, 2, 12, 3 :: real] \<noteq> 0"
    by simp_all
  from trend_classification_precedence [OF vals two first]
  obtain r m s and slope :: real where
    r: "analyze_performance_trends (sample_history [1, 10, 2, 12, 3]) 0 ''execution_time'' 24
          = Inr (TrendAnalysis r)"
    and m: "mean [1, 10, 2, 12, 3] = Inr m" and s: "stdev [1, 10, 2, 12, 3] = Inr s"
    and t: "trend_direction r =
       (if length [1, 10, 2, 12, 3 :: real] < 3 then STABLE
        else if m \<noteq> 0 \<and> s / m > 0.3 then VOLATILE
        else if slope > 0.1 then IMPROVING
        else if slope < - 0.1 then DEGRADING
        else STABLE)"
    by blast
  have mv: "m = 28 / 5" and sv: "s = sqrt (253 / 10)"
    using m s mn sd by simp_all
  have c1: "m \<noteq> 0 \<and> s / m > 0.3"
    unfolding mv sv using cv by simp
  have "trend_direction r = VOLATILE"
    using t c1 by simp
  then have v: "trend_of (analyze_performance_trends (sample_history [1, 10, 2, 12, 3]) 0
               ''execution_time'' 24) = Some VOLATILE"
    using r by simp
  from vals sl mn sd cv v show ?thesis by blast
qed

text \<open>The claim as it stands fails on a window of two samples: for the values 1 and 3 the
  standard deviation over the mean is about 0.71, above 0.3, and the classification is
  STABLE.\<close>

theorem two_samples_volatile_counterexample:
  "length (metrics_since (sample_history [1, 3]) ''execution_time'' (0 - hours 24)) = 2 \<and>
   mean [1, 3] = Inr 2 \<and> stdev [1, 3] = Inr (sqrt 2) \<and> sqrt 2 / 2 > 0.3 \<and>
   trend_of (analyze_performance_trends (sample_history [1, 3]) 0 ''execution_time'' 24)
     = Some STABLE"
proof -
  have l: "length (metrics_since (sample_history [1, 3]) ''execution_time'' (0 - hours 24)) = 2"
    by (simp add: sample_history_window hours_def) (simp add: sample_history_def)
  have a: "mean [1, 3] = Inr 2" by (simp add: mean_def)
  have b: "stdev [1, 3] = Inr (sqrt 2)" by (simp add: stdev_def Let_def)
  have "(6 / 10)\<^sup>2 < (2::real)" by (simp add: power2_eq_square)
  then have "6 / 10 < sqrt 2" by (rule real_less_rsqrt)
  then have c: "sqrt 2 / 2 > 0.3" by simp
  have vals: "[1, 3] = map m_value (metrics_since (sample_history [1, 3]) ''execution_time''
                 (0 - hours 24))"
    by (simp add: sample_history_window sample_history_values hours_def)
  from analyze_returns_trend [OF vals]
  obtain r where "analyze_performance_trends (sample_history [1, 3]) 0 ''execution_time'' 24
               = Inr (TrendAnalysis r)"
    and "calculate_trend_direction [1, 3] = Inr (trend_direction r)"
    by auto
  then have d: "trend_of (analyze_performance_trends (sample_history [1, 3]) 0
                   ''execution_time'' 24) = Some STABLE"
    by (simp add: calculate_trend_direction_def)
  from l a b c d show ?thesis by blast
qed

text \<open>
  Claim C9 (the code falls short of it). A window of two samples whose earliest value is
  0: the change rate divides by that value, and \<open>analyze_performance_trends\<close> raises
  \<open>ZeroDivisionError\<close> instead of returning the statistics.
\<close>

theorem analyze_zero_first_sample:
  "analyze_performance_trends (sample_history [0, 5]) 0 ''execution_time'' 24
     = Inl ZeroDivisionError"
  by (rule analyze_zero_first [of "[0, 5]"])
     (simp_all add: sample_history_window sample_history_values hours_def)


section \<open>Anomaly detection\<close>

lemma detect_anomalies_three:
  assumes "3 \<le> length values" and "mean values = Inr m" and "stdev values = Inr s"
  shows "detect_anomalies values =
     Inr (map (\<lambda>(i, v). \<lparr>a_index = i, a_value = v, a_deviation = \<bar>v - m\<bar>,
                          a_type = (if v > m then ''high'' else ''low'')\<rparr>)
            (filter (\<lambda>(i, v). \<bar>v - m\<bar> > 3 * s) (enumerate 0 values)))"
  using assms by (simp add: detect_anomalies_def bind_err_def Let_def)

lemma sum_squares_zero:
  fixes xs :: "real list"
  shows "sum_list (map (\<lambda>x. (x - m)\<^sup>2) xs) = 0 \<Longrightarrow> x \<in> set xs \<Longrightarrow> x = m"
proof (induction xs)
  case Nil
  then show ?case by simp
next
  case (Cons y ys)
  have nn: "0 \<le> sum_list (map (\<lambda>x. (x - m)\<^sup>2) ys)"
    by (rule sum_list_nonneg) auto
  have "(y - m)\<^sup>2 + sum_list (map (\<lambda>x. (x - m)\<^sup>2) ys) = 0"
    using Cons.prems(1) by simp
  moreover have "0 \<le> (y - m)\<^sup>2" by simp
  ultimately have a: "(y - m)\<^sup>2 = 0" and b: "sum_list (map (\<lambda>x. (x - m)\<^sup>2) ys) = 0"
    using nn by linarith+
  show ?case
  proof (cases "x = y")
    case True
    with a show ?thesis by simp
  next
    case False
    with Cons.prems(2) have "x \<in> set ys" by simp
    with b Cons.IH show ?thesis by blast
  qed
qed

lemma detect_anomalies_constant:
  assumes "stdev values = Inr 0"
  shows "detect_anomalies values = Inr []"
proof (cases "length values < 3")
  case True
  then show ?thesis by (simp add: detect_anomalies_def)
next
  case False
  then have three: "3 \<le> length values" and two: "2 \<le> length values" and ne: "values \<noteq> []"
    by auto
  let ?m = "sum_list values / real (length values)"
  have m: "mean values = Inr ?m"
    using mean_nonempty [OF ne] .
  have "sqrt (sum_list (map (\<lambda>x. (x - ?m)\<^sup>2) values) / real (length values - 1)) = 0"
    using assms stdev_two [OF two] by simp
  then have "sum_list (map (\<lambda>x. (x - ?m)\<^sup>2) values) = 0"
    using two by simp
  then have all: "\<And>x. x \<in> set values \<Longrightarrow> x = ?m"
    by (rule sum_squares_zero)
  have "filter (\<lambda>(i, v). \<bar>v - ?m\<bar> > 3 * 0) (enumerate 0 values) = []"
  proof -
    have "\<And>p. p \<in> set (enumerate 0 values) \<Longrightarrow> snd p = ?m"
      using all by (auto simp: in_set_enumerate_eq)
    then show ?thesis
      by (auto simp: filter_empty_conv)
  qed
  then show ?thesis
    using detect_anomalies_three [OF three m assms] by simp
qed

lemma nine_tens_mean: "mean [10, 10, 10, 10, 10, 10, 10, 10, 10, 1000] = Inr 109"
  by (simp add: mean_def)

lemma nine_tens_stdev: "stdev [10, 10, 10, 10, 10, 10, 10, 10, 10, 1000] = Inr (sqrt 98010)"
  by (simp add: stdev_def Let_def)

lemma nine_tens_bound: "297 < sqrt 98010"
  by (rule real_less_rsqrt) simp

lemma nine_tens_no_anomaly:
  "detect_anomalies [10, 10, 10, 10, 10, 10, 10, 10, 10, 1000] = Inr []"
proof -
  have "detect_anomalies [10, 10, 10, 10, 10, 10, 10, 10, 10, 1000] =
     Inr (map (\<lambda>(i, v). \<lparr>a_index = i, a_value = v, a_deviation = \<bar>v - 109\<bar>,
                          a_type = (if v > 109 then ''high'' else ''low'')\<rparr>)
            (filter (\<lambda>(i, v). \<bar>v - 109\<bar> > 3 * sqrt 98010)
               (enumerate 0 [10, 10, 10, 10, 10, 10, 10, 10, 10, 1000])))"
    by (rule detect_anomalies_three [OF _ nine_tens_mean nine_tens_stdev]) simp
  then show ?thesis
    using nine_tens_bound by simp
qed

lemma ten_tens_mean: "mean [10, 10, 10, 10, 10, 10, 10, 10, 10, 10, 1000] = Inr 100"
  by (simp add: mean_def)

lemma ten_tens_stdev: "stdev [10, 10, 10, 10, 10, 10, 10, 10, 10, 10, 1000] = Inr (sqrt 89100)"
  by (simp add: stdev_def Let_def)

lemma ten_tens_bounds: "30 \<le> sqrt 89100" "sqrt 89100 < 300"
proof -
  show "30 \<le> sqrt 89100" by (rule real_le_rsqrt) simp
  show "sqrt 89100 < 300" by (rule real_less_lsqrt) simp_all
qed

text \<open>
  Claim C7, as amended. For nine samples of value 10 and one of value 1000 the detector
  flags nothing: the mean is 109, the sample standard deviation is the square root of
  98010, about 313.07, and the deviation 891 of the value 1000 does not exceed three
  times it. In general, from three samples on, it flags the samples whose absolute
  deviation from the mean exceeds three times the standard deviation, with their index,
  value and deviation, as \<open>high\<close> above the mean and \<open>low\<close> otherwise. For a series whose
  standard deviation is 0 it returns the empty list.
\<close>

theorem three_sigma_detection:
  "detect_anomalies [10, 10, 10, 10, 10, 10, 10, 10, 10, 1000] = Inr [] \<and>
   (3 \<le> length vs \<and> mean vs = Inr m \<and> stdev vs = Inr s \<longrightarrow>
      detect_anomalies vs =
        Inr (map (\<lambda>(i, v). \<lparr>a_index = i, a_value = v, a_deviation = \<bar>v - m\<bar>,
                             a_type = (if v > m then ''high'' else ''low'')\<rparr>)
               (filter (\<lambda>(i, v). \<bar>v - m\<bar> > 3 * s) (enumerate 0 vs)))) \<and>
   (stdev values = Inr 0 \<longrightarrow> detect_anomalies values = Inr [])"
  using nine_tens_no_anomaly detect_anomalies_three [of vs m s]
    detect_anomalies_constant [of "values"]
  by blast

text \<open>With ten samples of value 10 and one of value 1000 the value 1000 is flagged, as
  \<open>high\<close>, and it alone; three equal samples have standard deviation 0 and no anomaly.\<close>

theorem three_sigma_detection_witness:
  "3 \<le> length [10, 10, 10, 10, 10, 10, 10, 10, 10, 10, 1000 :: real] \<and>
   mean [10, 10, 10, 10, 10, 10, 10, 10, 10, 10, 1000] = Inr 100 \<and>
   stdev [10, 10, 10, 10, 10, 10, 10, 10, 10, 10, 1000] = Inr (sqrt 89100) \<and>
   detect_anomalies [10, 10, 10, 10, 10, 10, 10, 10, 10, 10, 1000] =
     Inr [\<lparr>a_index = 10, a_value = 1000, a_deviation = 900, a_type = ''high''\<rparr>] \<and>
   stdev [5, 5, 5] = Inr 0 \<and>
   detect_anomalies [5, 5, 5] = Inr []"
proof -
  let ?vs = "[10, 10, 10, 10, 10, 10, 10, 10, 10, 10, 1000 :: real]"
  have l: "3 \<le> length ?vs" by simp
  have z: "stdev [5, 5, 5] = Inr 0" by (simp add: stdev_def Let_def)
  have general: "3 \<le> length ?vs \<and> mean ?vs = Inr 100 \<and> stdev ?vs = Inr (sqrt 89100) \<longrightarrow>
      detect_anomalies ?vs =
        Inr (map (\<lambda>(i, v). \<lparr>a_index = i, a_value = v, a_deviation = \<bar>v - 100\<bar>,
                             a_type = (if v > 100 then ''high'' else ''low'')\<rparr>)
               (filter (\<lambda>(i, v). \<bar>v - 100\<bar> > 3 * sqrt 89100) (enumerate 0 ?vs)))"
    and const_case: "stdev [5, 5, 5] = Inr 0 \<longrightarrow> detect_anomalies [5, 5, 5] = Inr []"
    using three_sigma_detection [of ?vs 100 "sqrt 89100" "[5, 5, 5]"] by blast+
  have "detect_anomalies ?vs =
        Inr (map (\<lambda>(i, v). \<lparr>a_index = i, a_value = v, a_deviation = \<bar>v - 100\<bar>,
                             a_type = (if v > 100 then ''high'' else ''low'')\<rparr>)
               (filter (\<lambda>(i, v). \<bar>v - 100\<bar> > 3 * sqrt 89100) (enumerate 0 ?vs)))"
    using general l ten_tens_mean ten_tens_stdev by blast
  then have flagged: "detect_anomalies ?vs =
     Inr [\<lparr>a_index = 10, a_value = 1000, a_deviation = 900, a_type = ''high''\<rparr>]"
    using ten_tens_bounds by simp
  have none: "detect_anomalies [5, 5, 5] = Inr []"
    using const_case z by blast
  from l ten_tens_mean ten_tens_stdev flagged z none show ?thesis
    by blast
qed

text \<open>The claim as it stands fails on its own series: nothing is flagged, since the
  deviation 891 of the value 1000 is below three times the standard deviation.\<close>

theorem nine_tens_counterexample:
  "mean [10, 10, 10, 10, 10, 10, 10, 10, 10, 1000] = Inr 109 \<and>
   stdev [10, 10, 10, 10, 10, 10, 10, 10, 10, 1000] = Inr (sqrt 98010) \<and>
   \<bar>1000 - 109\<bar> < 3 * sqrt 98010 \<and>
   detect_anomalies [10, 10, 10, 10, 10, 10, 10, 10, 10, 1000] = Inr []"
proof -
  have "\<bar>1000 - 109\<bar> < 3 * sqrt 98010"
    using nine_tens_bound by simp
  with nine_tens_mean nine_tens_stdev nine_tens_no_anomaly show ?thesis
    by blast
qed


section \<open>Prediction\<close>










end
